theory Spec2Isabelle
  imports Main "HOL-Library.Sublist"
begin

section \<open>Python values, exceptions and warnings\<close>

text \<open>
  The four policy enumerations of \<^verbatim>\<open>rclpy/qos.py\<close> are \<^verbatim>\<open>IntEnum\<close> classes
  (through \<^verbatim>\<open>QoSPolicyEnum\<close>). A class is identified by its name.
\<close>

datatype policy_cls = HistoryPolicy | ReliabilityPolicy | DurabilityPolicy | LivelinessPolicy

text \<open>
  The Python values that reach the constructor and the setters. \<open>PyEnum cls i\<close> is the
  member of \<open>cls\<close> whose integer value is \<open>i\<close>; \<open>PyDuration n\<close> is a
  \<^verbatim>\<open>rclpy.duration.Duration\<close> of \<open>n\<close> nanoseconds (the class is imported, not defined,
  by the module); \<open>PyStr\<close> stands for the values that are neither integers nor durations.
\<close>

datatype py_value =
    PyNone
  | PyInt int
  | PyBool bool
  | PyEnum policy_cls int
  | PyDuration int
  | PyStr string

text \<open>
  \<^verbatim>\<open>bool\<close> and every \<^verbatim>\<open>IntEnum\<close> are subclasses of \<^verbatim>\<open>int\<close>: \<open>int_value\<close> is the
  integer such a value stands for, and \<open>None\<close> for a value that is not an \<^verbatim>\<open>int\<close>.
\<close>

fun int_value :: "py_value \<Rightarrow> int option" where
  "int_value (PyInt i) = Some i"
| "int_value (PyBool b) = Some (if b then 1 else 0)"
| "int_value (PyEnum c i) = Some i"
| "int_value PyNone = None"
| "int_value (PyDuration n) = None"
| "int_value (PyStr s) = None"

definition isinstance_int :: "py_value \<Rightarrow> bool" where
  "isinstance_int v = (int_value v \<noteq> None)"

fun isinstance_bool :: "py_value \<Rightarrow> bool" where
  "isinstance_bool (PyBool b) = True"
| "isinstance_bool v = False"

fun isinstance_Duration :: "py_value \<Rightarrow> bool" where
  "isinstance_Duration (PyDuration n) = True"
| "isinstance_Duration v = False"

fun isinstance_policy :: "policy_cls \<Rightarrow> py_value \<Rightarrow> bool" where
  "isinstance_policy cls (PyEnum c i) = (c = cls)"
| "isinstance_policy cls v = False"

text \<open>
  Python's \<^verbatim>\<open>==\<close> on these values: integers (with \<^verbatim>\<open>bool\<close> and enumeration members)
  compare by integer value, durations by their nanoseconds, strings by content, and
  \<^verbatim>\<open>None\<close> equals only itself.
\<close>

fun py_eq :: "py_value \<Rightarrow> py_value \<Rightarrow> bool" where
  "py_eq PyNone w = (w = PyNone)"
| "py_eq (PyDuration n) w = (case w of PyDuration m \<Rightarrow> n = m | _ \<Rightarrow> False)"
| "py_eq (PyStr s) w = (case w of PyStr t \<Rightarrow> s = t | _ \<Rightarrow> False)"
| "py_eq v w = (case int_value w of None \<Rightarrow> False | Some j \<Rightarrow> int_value v = Some j)"

text \<open>
  Exception objects. Creating one by calling its class runs \<^verbatim>\<open>BaseException.__new__\<close>,
  which stores the call's arguments as \<^verbatim>\<open>args\<close>, and then the class's \<^verbatim>\<open>__init__\<close>.
\<close>

datatype exc_class =
    Exception_cls
  | InvalidQoSProfileException_cls
  | AssertionError_cls
  | ValueError_cls
  | KeyError_cls
  | AttributeError_cls
  | TypeError_cls

datatype py_exc = Exc exc_class "exc_arg list"
  and exc_arg = StrArg string | ExcArg py_exc

fun exc_cls :: "py_exc \<Rightarrow> exc_class" where
  "exc_cls (Exc c as) = c"

fun exc_args :: "py_exc \<Rightarrow> exc_arg list" where
  "exc_args (Exc c as) = as"

definition BaseException_new :: "exc_class \<Rightarrow> exc_arg list \<Rightarrow> py_exc" where
  "BaseException_new cls as = Exc cls as"

text \<open>\<^verbatim>\<open>Exception(...)\<close> as a plain call: a new object of class \<^verbatim>\<open>Exception\<close>.\<close>

definition Exception_call :: "exc_arg list \<Rightarrow> py_exc" where
  "Exception_call as = BaseException_new Exception_cls as"

text \<open>
  \<^verbatim>\<open>InvalidQoSProfileException.__init__(self, message)\<close>: its body is the expression
  statement \<^verbatim>\<open>Exception(self, f'Invalid QoSProfile: {message}')\<close>, whose value is dropped;
  \<^verbatim>\<open>self\<close> is left as \<^verbatim>\<open>__new__\<close> made it.
\<close>

definition InvalidQoSProfileException_init :: "py_exc \<Rightarrow> string \<Rightarrow> py_exc" where
  "InvalidQoSProfileException_init self message =
     (let dropped = Exception_call [ExcArg self, StrArg (''Invalid QoSProfile: '' @ message)]
      in self)"

definition InvalidQoSProfileException :: "string \<Rightarrow> py_exc" where
  "InvalidQoSProfileException message =
     InvalidQoSProfileException_init
       (BaseException_new InvalidQoSProfileException_cls [StrArg message]) message"

text \<open>\<^verbatim>\<open>warnings.warn(text)\<close> records a \<^verbatim>\<open>UserWarning\<close> and goes on.\<close>

datatype warning = UserWarning string

text \<open>
  A computation emits warnings and either raises or returns.
\<close>

type_synonym 'a res = "warning list \<times> (py_exc + 'a)"

definition return :: "'a \<Rightarrow> 'a res" where
  "return x = ([], Inr x)"

definition raise :: "py_exc \<Rightarrow> 'a res" where
  "raise e = ([], Inl e)"

definition warn :: "string \<Rightarrow> unit res" where
  "warn text = ([UserWarning text], Inr ())"

fun bind :: "'a res \<Rightarrow> ('a \<Rightarrow> 'b res) \<Rightarrow> 'b res" where
  "bind (ws, Inl e) f = (ws, Inl e)"
| "bind (ws, Inr x) f = (case f x of (ws', r) \<Rightarrow> (ws @ ws', r))"

section \<open>The policy enumerations\<close>

text \<open>
  \<^verbatim>\<open>cls.__members__\<close>, in declaration order. The deprecated \<^verbatim>\<open>RMW_QOS_POLICY_...\<close>
  names are descriptors attached to the class after its creation; they are not members.
\<close>

fun members :: "policy_cls \<Rightarrow> (string \<times> int) list" where
  "members HistoryPolicy =
     [(''SYSTEM_DEFAULT'', 0), (''KEEP_LAST'', 1), (''KEEP_ALL'', 2), (''UNKNOWN'', 3)]"
| "members ReliabilityPolicy =
     [(''SYSTEM_DEFAULT'', 0), (''RELIABLE'', 1), (''BEST_EFFORT'', 2), (''UNKNOWN'', 3),
      (''BEST_AVAILABLE'', 4)]"
| "members DurabilityPolicy =
     [(''SYSTEM_DEFAULT'', 0), (''TRANSIENT_LOCAL'', 1), (''VOLATILE'', 2), (''UNKNOWN'', 3),
      (''BEST_AVAILABLE'', 4)]"
| "members LivelinessPolicy =
     [(''SYSTEM_DEFAULT'', 0), (''AUTOMATIC'', 1), (''MANUAL_BY_TOPIC'', 3), (''UNKNOWN'', 4),
      (''BEST_AVAILABLE'', 5)]"

text \<open>
  \<^verbatim>\<open>cls(value)\<close>: the member with that value, or \<^verbatim>\<open>ValueError\<close>. The lookup goes by
  hash and equality, so a \<^verbatim>\<open>bool\<close> or a member of another \<^verbatim>\<open>IntEnum\<close> finds the
  member with the same integer.
\<close>

definition has_value :: "policy_cls \<Rightarrow> int \<Rightarrow> bool" where
  "has_value cls i = (i \<in> set (map snd (members cls)))"

definition enum_call :: "policy_cls \<Rightarrow> py_value \<Rightarrow> py_value res" where
  "enum_call cls v =
     (case int_value v of
        None \<Rightarrow> raise (Exc ValueError_cls [])
      | Some i \<Rightarrow>
          if has_value cls i then return (PyEnum cls i)
          else raise (Exc ValueError_cls []))"

abbreviation KEEP_LAST :: py_value where
  "KEEP_LAST \<equiv> PyEnum HistoryPolicy 1"

section \<open>QoSProfile\<close>

text \<open>
  The nine slots of an object. A slot that has not been assigned yet is \<open>None\<close>; reading
  it raises \<^verbatim>\<open>AttributeError\<close>.
\<close>

record QoSProfile =
  slot_history :: "py_value option"
  slot_depth :: "py_value option"
  slot_reliability :: "py_value option"
  slot_durability :: "py_value option"
  slot_lifespan :: "py_value option"
  slot_deadline :: "py_value option"
  slot_liveliness :: "py_value option"
  slot_liveliness_lease_duration :: "py_value option"
  slot_avoid_ros_namespace_conventions :: "py_value option"

definition new_object :: QoSProfile where
  "new_object =
     \<lparr>slot_history = None, slot_depth = None, slot_reliability = None,
      slot_durability = None, slot_lifespan = None, slot_deadline = None,
      slot_liveliness = None, slot_liveliness_lease_duration = None,
      slot_avoid_ros_namespace_conventions = None\<rparr>"

definition read_slot :: "py_value option \<Rightarrow> py_value res" where
  "read_slot s = (case s of None \<Rightarrow> raise (Exc AttributeError_cls []) | Some v \<Rightarrow> return v)"

definition assert :: "bool \<Rightarrow> unit res" where
  "assert b = (if b then return () else raise (Exc AssertionError_cls []))"

subsection \<open>The setters\<close>

definition set_history :: "QoSProfile \<Rightarrow> py_value \<Rightarrow> QoSProfile res" where
  "set_history self v =
     bind (assert (isinstance_policy HistoryPolicy v \<or> isinstance_int v)) (\<lambda>_.
     bind (enum_call HistoryPolicy v) (\<lambda>m.
     return (self\<lparr>slot_history := Some m\<rparr>)))"

definition set_reliability :: "QoSProfile \<Rightarrow> py_value \<Rightarrow> QoSProfile res" where
  "set_reliability self v =
     bind (assert (isinstance_policy ReliabilityPolicy v \<or> isinstance_int v)) (\<lambda>_.
     bind (enum_call ReliabilityPolicy v) (\<lambda>m.
     return (self\<lparr>slot_reliability := Some m\<rparr>)))"

definition set_durability :: "QoSProfile \<Rightarrow> py_value \<Rightarrow> QoSProfile res" where
  "set_durability self v =
     bind (assert (isinstance_policy DurabilityPolicy v \<or> isinstance_int v)) (\<lambda>_.
     bind (enum_call DurabilityPolicy v) (\<lambda>m.
     return (self\<lparr>slot_durability := Some m\<rparr>)))"

definition zero_depth_text :: string where
  "zero_depth_text =
     ''A zero depth with KEEP_LAST doesn't make sense; no data could be stored. '' @
     ''This will be interpreted as SYSTEM_DEFAULT''"

definition set_depth :: "QoSProfile \<Rightarrow> py_value \<Rightarrow> QoSProfile res" where
  "set_depth self v =
     bind (assert (isinstance_int v)) (\<lambda>_.
     bind (read_slot (slot_history self)) (\<lambda>h.
     bind (if py_eq h KEEP_LAST \<and> py_eq v (PyInt 0) then warn zero_depth_text else return ())
       (\<lambda>_.
     return (self\<lparr>slot_depth := Some v\<rparr>))))"

definition set_lifespan :: "QoSProfile \<Rightarrow> py_value \<Rightarrow> QoSProfile res" where
  "set_lifespan self v =
     bind (assert (isinstance_Duration v)) (\<lambda>_.
     return (self\<lparr>slot_lifespan := Some v\<rparr>))"

definition set_deadline :: "QoSProfile \<Rightarrow> py_value \<Rightarrow> QoSProfile res" where
  "set_deadline self v =
     bind (assert (isinstance_Duration v)) (\<lambda>_.
     return (self\<lparr>slot_deadline := Some v\<rparr>))"

definition set_liveliness :: "QoSProfile \<Rightarrow> py_value \<Rightarrow> QoSProfile res" where
  "set_liveliness self v =
     bind (assert (isinstance_policy LivelinessPolicy v \<or> isinstance_int v)) (\<lambda>_.
     bind (enum_call LivelinessPolicy v) (\<lambda>m.
     return (self\<lparr>slot_liveliness := Some m\<rparr>)))"

definition set_liveliness_lease_duration :: "QoSProfile \<Rightarrow> py_value \<Rightarrow> QoSProfile res" where
  "set_liveliness_lease_duration self v =
     bind (assert (isinstance_Duration v)) (\<lambda>_.
     return (self\<lparr>slot_liveliness_lease_duration := Some v\<rparr>))"

definition set_avoid_ros_namespace_conventions :: "QoSProfile \<Rightarrow> py_value \<Rightarrow> QoSProfile res" where
  "set_avoid_ros_namespace_conventions self v =
     bind (assert (isinstance_bool v)) (\<lambda>_.
     return (self\<lparr>slot_avoid_ros_namespace_conventions := Some v\<rparr>))"

subsection \<open>The constructor\<close>

text \<open>
  The keyword arguments of \<^verbatim>\<open>QoSProfile(...)\<close>; an omitted argument is \<^verbatim>\<open>None\<close>.
\<close>

record init_args =
  history :: py_value
  depth :: py_value
  reliability :: py_value
  durability :: py_value
  lifespan :: py_value
  deadline :: py_value
  liveliness :: py_value
  liveliness_lease_duration :: py_value
  avoid_ros_namespace_conventions :: py_value

text \<open>
  The class attribute \<^verbatim>\<open>__qos_profile_default_dict\<close> is computed by the middleware
  binding when the module is loaded; the constructor only reads it, so it is a parameter
  here. \<^verbatim>\<open>d[key]\<close> raises \<^verbatim>\<open>KeyError\<close> for a missing key.
\<close>

type_synonym py_dict = "string \<Rightarrow> py_value option"

definition getitem :: "py_dict \<Rightarrow> string \<Rightarrow> py_value res" where
  "getitem d key =
     (case d key of None \<Rightarrow> raise (Exc KeyError_cls [StrArg key]) | Some v \<Rightarrow> return v)"

text \<open>The conditional expression \<^verbatim>\<open>d[key] if arg is None else arg\<close>.\<close>

definition default_unless_given :: "py_dict \<Rightarrow> string \<Rightarrow> py_value \<Rightarrow> py_value res" where
  "default_unless_given d key arg = (if arg = PyNone then getitem d key else return arg)"

definition QoSProfile_init :: "py_dict \<Rightarrow> init_args \<Rightarrow> QoSProfile res" where
  "QoSProfile_init d a =
     bind (if history a = PyNone then
             (if depth a = PyNone then
                raise (InvalidQoSProfileException ''History and/or depth settings are required.'')
              else return KEEP_LAST)
           else return (history a)) (\<lambda>hist.
     bind (set_history new_object hist) (\<lambda>self.
     bind (read_slot (slot_history self)) (\<lambda>h.
     bind (if py_eq KEEP_LAST h \<and> depth a = PyNone then
             raise (InvalidQoSProfileException
                      ''History set to KEEP_LAST without a depth setting.'')
           else return ()) (\<lambda>_.
     bind (default_unless_given d ''depth'' (depth a)) (\<lambda>v.
     bind (set_depth self v) (\<lambda>self.
     bind (default_unless_given d ''reliability'' (reliability a)) (\<lambda>v.
     bind (set_reliability self v) (\<lambda>self.
     bind (default_unless_given d ''durability'' (durability a)) (\<lambda>v.
     bind (set_durability self v) (\<lambda>self.
     bind (default_unless_given d ''lifespan'' (lifespan a)) (\<lambda>v.
     bind (set_lifespan self v) (\<lambda>self.
     bind (default_unless_given d ''deadline'' (deadline a)) (\<lambda>v.
     bind (set_deadline self v) (\<lambda>self.
     bind (default_unless_given d ''liveliness'' (liveliness a)) (\<lambda>v.
     bind (set_liveliness self v) (\<lambda>self.
     bind (default_unless_given d ''liveliness_lease_duration''
             (liveliness_lease_duration a)) (\<lambda>v.
     bind (set_liveliness_lease_duration self v) (\<lambda>self.
     bind (default_unless_given d ''avoid_ros_namespace_conventions''
             (avoid_ros_namespace_conventions a)) (\<lambda>v.
     set_avoid_ros_namespace_conventions self v)))))))))))))))))))"

subsection \<open>Assignments after construction\<close>

text \<open>One assignment statement \<^verbatim>\<open>profile.field = value\<close>.\<close>

datatype assignment =
    Assign_history py_value
  | Assign_depth py_value
  | Assign_reliability py_value
  | Assign_durability py_value
  | Assign_lifespan py_value
  | Assign_deadline py_value
  | Assign_liveliness py_value
  | Assign_liveliness_lease_duration py_value
  | Assign_avoid_ros_namespace_conventions py_value

fun assign :: "QoSProfile \<Rightarrow> assignment \<Rightarrow> QoSProfile res" where
  "assign self (Assign_history v) = set_history self v"
| "assign self (Assign_depth v) = set_depth self v"
| "assign self (Assign_reliability v) = set_reliability self v"
| "assign self (Assign_durability v) = set_durability self v"
| "assign self (Assign_lifespan v) = set_lifespan self v"
| "assign self (Assign_deadline v) = set_deadline self v"
| "assign self (Assign_liveliness v) = set_liveliness self v"
| "assign self (Assign_liveliness_lease_duration v) = set_liveliness_lease_duration self v"
| "assign self (Assign_avoid_ros_namespace_conventions v) =
     set_avoid_ros_namespace_conventions self v"

text \<open>
  The object after an assignment statement: a setter that raises has stored nothing, so
  the object is as before.
\<close>

definition after :: "QoSProfile \<Rightarrow> assignment \<Rightarrow> QoSProfile" where
  "after self x = (case assign self x of (ws, Inr self') \<Rightarrow> self' | (ws, Inl e) \<Rightarrow> self)"

definition after_all :: "QoSProfile \<Rightarrow> assignment list \<Rightarrow> QoSProfile" where
  "after_all self xs = foldl after self xs"

subsection \<open>Equality\<close>

definition slots :: "string list" where
  "slots =
     [''_history'', ''_depth'', ''_reliability'', ''_durability'', ''_lifespan'', ''_deadline'',
      ''_liveliness'', ''_liveliness_lease_duration'', ''_avoid_ros_namespace_conventions'']"

definition getattribute :: "QoSProfile \<Rightarrow> string \<Rightarrow> py_value res" where
  "getattribute self name =
     (if name = ''_history'' then read_slot (slot_history self)
      else if name = ''_depth'' then read_slot (slot_depth self)
      else if name = ''_reliability'' then read_slot (slot_reliability self)
      else if name = ''_durability'' then read_slot (slot_durability self)
      else if name = ''_lifespan'' then read_slot (slot_lifespan self)
      else if name = ''_deadline'' then read_slot (slot_deadline self)
      else if name = ''_liveliness'' then read_slot (slot_liveliness self)
      else if name = ''_liveliness_lease_duration''
        then read_slot (slot_liveliness_lease_duration self)
      else if name = ''_avoid_ros_namespace_conventions''
        then read_slot (slot_avoid_ros_namespace_conventions self)
      else raise (Exc AttributeError_cls []))"

text \<open>
  \<^verbatim>\<open>all(... for slot in self.__slots__)\<close>: the generator is consumed up to the first
  comparison that is false.
\<close>

fun all_slots_equal :: "QoSProfile \<Rightarrow> QoSProfile \<Rightarrow> string list \<Rightarrow> bool res" where
  "all_slots_equal self other [] = return True"
| "all_slots_equal self other (slot # rest) =
     bind (getattribute self slot) (\<lambda>x.
     bind (getattribute other slot) (\<lambda>y.
     if py_eq x y then all_slots_equal self other rest else return False))"

text \<open>The right operand of \<^verbatim>\<open>==\<close> is any object.\<close>

datatype py_object = QoSProfile_object QoSProfile | Other_object py_value

definition QoSProfile_eq :: "QoSProfile \<Rightarrow> py_object \<Rightarrow> bool res" where
  "QoSProfile_eq self other =
     (case other of
        Other_object v \<Rightarrow> return False
      | QoSProfile_object q \<Rightarrow> all_slots_equal self q slots)"

subsection \<open>Conversion for the middleware binding\<close>

text \<open>
  Modelled from the spec: the structure \<^verbatim>\<open>_rclpy.rmw_qos_profile_t\<close> belongs to the
  compiled binding, which is not among the sources. It carries
  the nine fields; the constructor is given the policy members and the depth as integers
  and the three durations as \<^verbatim>\<open>get_c_duration()\<close> gives them, here their nanoseconds.
\<close>

record rmw_qos_profile_t =
  c_history :: int
  c_depth :: int
  c_reliability :: int
  c_durability :: int
  c_lifespan :: int
  c_deadline :: int
  c_liveliness :: int
  c_liveliness_lease_duration :: int
  c_avoid_ros_namespace_conventions :: bool

definition as_int :: "py_value \<Rightarrow> int res" where
  "as_int v = (case int_value v of None \<Rightarrow> raise (Exc TypeError_cls []) | Some i \<Rightarrow> return i)"

definition as_bool :: "py_value \<Rightarrow> bool res" where
  "as_bool v = (case v of PyBool b \<Rightarrow> return b | _ \<Rightarrow> raise (Exc TypeError_cls []))"

definition get_c_duration :: "py_value \<Rightarrow> int res" where
  "get_c_duration v =
     (case v of PyDuration n \<Rightarrow> return n | _ \<Rightarrow> raise (Exc AttributeError_cls []))"

definition get_c_qos_profile :: "QoSProfile \<Rightarrow> rmw_qos_profile_t res" where
  "get_c_qos_profile self =
     bind (bind (read_slot (slot_history self)) as_int) (\<lambda>h.
     bind (bind (read_slot (slot_depth self)) as_int) (\<lambda>n.
     bind (bind (read_slot (slot_reliability self)) as_int) (\<lambda>r.
     bind (bind (read_slot (slot_durability self)) as_int) (\<lambda>du.
     bind (bind (read_slot (slot_lifespan self)) get_c_duration) (\<lambda>ls.
     bind (bind (read_slot (slot_deadline self)) get_c_duration) (\<lambda>dl.
     bind (bind (read_slot (slot_liveliness self)) as_int) (\<lambda>lv.
     bind (bind (read_slot (slot_liveliness_lease_duration self)) get_c_duration) (\<lambda>ld.
     bind (bind (read_slot (slot_avoid_ros_namespace_conventions self)) as_bool) (\<lambda>av.
     return \<lparr>c_history = h, c_depth = n, c_reliability = r, c_durability = du,
              c_lifespan = ls, c_deadline = dl, c_liveliness = lv,
              c_liveliness_lease_duration = ld,
              c_avoid_ros_namespace_conventions = av\<rparr>)))))))))"

section \<open>QoSPolicyEnum: short keys\<close>

text \<open>
  \<^verbatim>\<open>str.upper\<close>, \<^verbatim>\<open>str.lower\<close> and \<^verbatim>\<open>str.startswith\<close> on ASCII text. Python's case
  mapping of characters outside ASCII is not part of this model.
\<close>

definition is_ascii :: "string \<Rightarrow> bool" where
  "is_ascii s = list_all (\<lambda>c. (of_char c :: nat) < 128) s"

definition char_upper :: "char \<Rightarrow> char" where
  "char_upper c =
     (let n = (of_char c :: nat) in if 97 \<le> n \<and> n \<le> 122 then char_of (n - 32) else c)"

definition char_lower :: "char \<Rightarrow> char" where
  "char_lower c =
     (let n = (of_char c :: nat) in if 65 \<le> n \<and> n \<le> 90 then char_of (n + 32) else c)"

definition upper :: "string \<Rightarrow> string" where
  "upper s = map char_upper s"

definition lower :: "string \<Rightarrow> string" where
  "lower s = map char_lower s"

definition startswith :: "string \<Rightarrow> string \<Rightarrow> bool" where
  "startswith s p = (take (length p) s = p)"

definition short_keys :: "policy_cls \<Rightarrow> string list" where
  "short_keys cls = [lower k. k \<leftarrow> map fst (members cls), \<not> startswith k ''RMW'']"

text \<open>\<^verbatim>\<open>cls[name.upper()].value\<close>; the subscript raises \<^verbatim>\<open>KeyError\<close> for an unknown name.\<close>

definition get_from_short_key :: "policy_cls \<Rightarrow> string \<Rightarrow> py_value res" where
  "get_from_short_key cls name =
     (case map_of (members cls) (upper name) of
        None \<Rightarrow> raise (Exc KeyError_cls [StrArg (upper name)])
      | Some v \<Rightarrow> return (PyInt v))"

section \<open>Compatibility of two profiles\<close>

text \<open>
  Modelled from the spec: \<^verbatim>\<open>QoSCompatibility\<close> is an alias of the binding's enumeration of
  the three verdicts.
\<close>

datatype QoSCompatibility = OK | WARNING | ERROR

text \<open>
  \<^verbatim>\<open>QoSPolicyKind\<close>, as declared: names and bit values. (The last four values are written
  as one-element tuples in the source; \<^verbatim>\<open>IntEnum\<close> unpacks them to the same integers.)
\<close>

definition QoSPolicyKind_members :: "(string \<times> int) list" where
  "QoSPolicyKind_members =
     [(''INVALID'', 1), (''DURABILITY'', 2), (''DEADLINE'', 4), (''LIVELINESS'', 8),
      (''RELIABILITY'', 16), (''HISTORY'', 32), (''LIFESPAN'', 64), (''DEPTH'', 128),
      (''LIVELINESS_LEASE_DURATION'', 256), (''AVOID_ROS_NAMESPACE_CONVENTIONS'', 512)]"

definition qos_policy_name_from_kind :: "int \<Rightarrow> string res" where
  "qos_policy_name_from_kind policy_kind =
     (case find (\<lambda>m. snd m = policy_kind) QoSPolicyKind_members of
        None \<Rightarrow> raise (Exc ValueError_cls [])
      | Some m \<Rightarrow> return (fst m))"

record compatibility_result =
  compatibility :: QoSCompatibility
  reason :: string

text \<open>
  Modelled from the spec: the comparison \<^verbatim>\<open>_rclpy.rclpy_qos_check_compatible\<close> is done by
  the compiled middleware binding, which is not among the sources. The definitions from
  here to \<open>rclpy_qos_check_compatible\<close> follow the per-policy rules of the specification
  (section 4.4). The specification does not give the value of the duration that stands
  for "no deadline"; \<open>sentinel\<close> says which nanosecond counts are such values. In the
  integers below, reliability 1 is \<^verbatim>\<open>RELIABLE\<close> and 2 \<^verbatim>\<open>BEST_EFFORT\<close>; durability 1 is
  \<^verbatim>\<open>TRANSIENT_LOCAL\<close> and 2 \<^verbatim>\<open>VOLATILE\<close>; liveliness 1 is \<^verbatim>\<open>AUTOMATIC\<close> and 3
  \<^verbatim>\<open>MANUAL_BY_TOPIC\<close>; every other value is indeterminate.
\<close>

definition reliability_indeterminate :: "int \<Rightarrow> bool" where
  "reliability_indeterminate r = (r \<noteq> 1 \<and> r \<noteq> 2)"

text \<open>Modelled from the spec: the reliability rule of the missing comparison.\<close>

definition check_reliability :: "int \<Rightarrow> int \<Rightarrow> QoSCompatibility" where
  "check_reliability pub sub =
     (if pub = 1 \<and> sub = 2 then OK
      else if pub = 2 \<and> sub = 1 then ERROR
      else if pub = sub \<and> \<not> reliability_indeterminate pub then OK
      else WARNING)"

text \<open>Modelled from the spec: the durability values that are not concrete.\<close>

definition durability_indeterminate :: "int \<Rightarrow> bool" where
  "durability_indeterminate r = (r \<noteq> 1 \<and> r \<noteq> 2)"

text \<open>Modelled from the spec: the durability rule of the missing comparison.\<close>

definition check_durability :: "int \<Rightarrow> int \<Rightarrow> QoSCompatibility" where
  "check_durability pub sub =
     (if pub = 1 \<and> (sub = 2 \<or> sub = 1) then OK
      else if pub = 2 \<and> sub = 1 then ERROR
      else if pub = sub \<and> \<not> durability_indeterminate pub then OK
      else WARNING)"

text \<open>Modelled from the spec: the deadline rule of the missing comparison.\<close>

definition check_deadline :: "(int \<Rightarrow> bool) \<Rightarrow> int \<Rightarrow> int \<Rightarrow> QoSCompatibility" where
  "check_deadline sentinel pub sub =
     (if sentinel pub \<or> sentinel sub then WARNING
      else if pub \<le> sub then OK
      else ERROR)"

text \<open>Modelled from the spec: the liveliness kinds that are not concrete.\<close>

definition liveliness_indeterminate :: "int \<Rightarrow> bool" where
  "liveliness_indeterminate k = (k \<noteq> 1 \<and> k \<noteq> 3)"

text \<open>Modelled from the spec: the liveliness rule of the missing comparison.\<close>

definition check_liveliness ::
  "(int \<Rightarrow> bool) \<Rightarrow> int \<Rightarrow> int \<Rightarrow> int \<Rightarrow> int \<Rightarrow> QoSCompatibility" where
  "check_liveliness sentinel pub_kind pub_lease sub_kind sub_lease =
     (if liveliness_indeterminate pub_kind \<or> liveliness_indeterminate sub_kind
         \<or> sentinel pub_lease \<or> sentinel sub_lease then WARNING
      else if pub_kind \<noteq> sub_kind then ERROR
      else if pub_lease \<le> sub_lease then OK
      else ERROR)"

text \<open>Modelled from the spec: the verdict of each policy, under the name of its kind.\<close>

definition policy_verdicts ::
  "(int \<Rightarrow> bool) \<Rightarrow> rmw_qos_profile_t \<Rightarrow> rmw_qos_profile_t \<Rightarrow>
     (string \<times> QoSCompatibility) list" where
  "policy_verdicts sentinel pub sub =
     [(''RELIABILITY'', check_reliability (c_reliability pub) (c_reliability sub)),
      (''DURABILITY'', check_durability (c_durability pub) (c_durability sub)),
      (''DEADLINE'', check_deadline sentinel (c_deadline pub) (c_deadline sub)),
      (''LIVELINESS'',
         check_liveliness sentinel (c_liveliness pub) (c_liveliness_lease_duration pub)
           (c_liveliness sub) (c_liveliness_lease_duration sub))]"

text \<open>Modelled from the spec: the worst verdict over all policies.\<close>

definition final_verdict :: "QoSCompatibility list \<Rightarrow> QoSCompatibility" where
  "final_verdict vs =
     (if ERROR \<in> set vs then ERROR else if WARNING \<in> set vs then WARNING else OK)"

text \<open>Modelled from the spec: the reason names every policy whose verdict is not OK.\<close>

definition reason_text :: "(string \<times> QoSCompatibility) list \<Rightarrow> string" where
  "reason_text pvs = concat [name @ ''; ''. (name, v) \<leftarrow> pvs, v \<noteq> OK]"

text \<open>Modelled from the spec: the result of the missing comparison, verdict and reason.\<close>

definition rclpy_qos_check_compatible ::
  "(int \<Rightarrow> bool) \<Rightarrow> rmw_qos_profile_t \<Rightarrow> rmw_qos_profile_t \<Rightarrow> compatibility_result" where
  "rclpy_qos_check_compatible sentinel pub sub =
     (let pvs = policy_verdicts sentinel pub sub
      in \<lparr>compatibility = final_verdict (map snd pvs), reason = reason_text pvs\<rparr>)"

text \<open>\<^verbatim>\<open>qos_check_compatible\<close>, as the module defines it over the binding's primitive.\<close>

definition qos_check_compatible ::
  "(int \<Rightarrow> bool) \<Rightarrow> QoSProfile \<Rightarrow> QoSProfile \<Rightarrow> (QoSCompatibility \<times> string) res" where
  "qos_check_compatible sentinel publisher_qos subscription_qos =
     bind (get_c_qos_profile publisher_qos) (\<lambda>pub.
     bind (get_c_qos_profile subscription_qos) (\<lambda>sub.
     let result = rclpy_qos_check_compatible sentinel pub sub
     in return (compatibility result, reason result)))"

section \<open>Notions used in the statements\<close>

text \<open>The value the constructor assigns to a field: the argument, or the default.\<close>

definition chosen :: "py_dict \<Rightarrow> string \<Rightarrow> py_value \<Rightarrow> py_value option" where
  "chosen d key arg = (if arg = PyNone then d key else Some arg)"

text \<open>
  The statements of the constructor after the two checks on history and depth, run on the
  object whose history is already assigned.
\<close>

definition init_fields :: "py_dict \<Rightarrow> init_args \<Rightarrow> QoSProfile \<Rightarrow> QoSProfile res" where
  "init_fields d a self0 =
     bind (default_unless_given d ''depth'' (depth a)) (\<lambda>v.
     bind (set_depth self0 v) (\<lambda>self.
     bind (default_unless_given d ''reliability'' (reliability a)) (\<lambda>v.
     bind (set_reliability self v) (\<lambda>self.
     bind (default_unless_given d ''durability'' (durability a)) (\<lambda>v.
     bind (set_durability self v) (\<lambda>self.
     bind (default_unless_given d ''lifespan'' (lifespan a)) (\<lambda>v.
     bind (set_lifespan self v) (\<lambda>self.
     bind (default_unless_given d ''deadline'' (deadline a)) (\<lambda>v.
     bind (set_deadline self v) (\<lambda>self.
     bind (default_unless_given d ''liveliness'' (liveliness a)) (\<lambda>v.
     bind (set_liveliness self v) (\<lambda>self.
     bind (default_unless_given d ''liveliness_lease_duration''
             (liveliness_lease_duration a)) (\<lambda>v.
     bind (set_liveliness_lease_duration self v) (\<lambda>self.
     bind (default_unless_given d ''avoid_ros_namespace_conventions''
             (avoid_ros_namespace_conventions a)) (\<lambda>v.
     set_avoid_ros_namespace_conventions self v)))))))))))))))"

definition returns :: "'a res \<Rightarrow> bool" where
  "returns m = (case snd m of Inl e \<Rightarrow> False | Inr x \<Rightarrow> True)"

text \<open>The computation raises an exception of the given class.\<close>

definition raises_cls :: "exc_class \<Rightarrow> 'a res \<Rightarrow> bool" where
  "raises_cls c m = (case snd m of Inl e \<Rightarrow> exc_cls e = c | Inr x \<Rightarrow> False)"

text \<open>One of the exception's arguments is a string that contains the text.\<close>

definition mentions :: "string \<Rightarrow> py_exc \<Rightarrow> bool" where
  "mentions text e =
     list_ex (\<lambda>x. case x of StrArg s \<Rightarrow> sublist text s | ExcArg e' \<Rightarrow> False) (exc_args e)"

text \<open>The computation does not raise \<^verbatim>\<open>InvalidQoSProfileException\<close>.\<close>

definition no_invalid :: "'a res \<Rightarrow> bool" where
  "no_invalid m =
     (case snd m of Inl e \<Rightarrow> exc_cls e \<noteq> InvalidQoSProfileException_cls | Inr x \<Rightarrow> True)"

text \<open>A defined member of an enumeration class, as opposed to a bare integer.\<close>

definition member_of :: "policy_cls \<Rightarrow> py_value \<Rightarrow> bool" where
  "member_of cls v = (case v of PyEnum c i \<Rightarrow> c = cls \<and> has_value cls i | _ \<Rightarrow> False)"

definition slot_holds :: "(py_value \<Rightarrow> bool) \<Rightarrow> py_value option \<Rightarrow> bool" where
  "slot_holds P s = (case s of None \<Rightarrow> False | Some v \<Rightarrow> P v)"

definition enum_fields_defined :: "QoSProfile \<Rightarrow> bool" where
  "enum_fields_defined p =
     (slot_holds (member_of HistoryPolicy) (slot_history p) \<and>
      slot_holds (member_of ReliabilityPolicy) (slot_reliability p) \<and>
      slot_holds (member_of DurabilityPolicy) (slot_durability p) \<and>
      slot_holds (member_of LivelinessPolicy) (slot_liveliness p))"

text \<open>Every slot holds a value of the kind its setter admits.\<close>

definition profile_ok :: "QoSProfile \<Rightarrow> bool" where
  "profile_ok p =
     (enum_fields_defined p \<and>
      slot_holds isinstance_int (slot_depth p) \<and>
      slot_holds isinstance_Duration (slot_lifespan p) \<and>
      slot_holds isinstance_Duration (slot_deadline p) \<and>
      slot_holds isinstance_Duration (slot_liveliness_lease_duration p) \<and>
      slot_holds isinstance_bool (slot_avoid_ros_namespace_conventions p))"

text \<open>Every slot has been assigned.\<close>

definition initialised :: "QoSProfile \<Rightarrow> bool" where
  "initialised p =
     (slot_history p \<noteq> None \<and> slot_depth p \<noteq> None \<and> slot_reliability p \<noteq> None \<and>
      slot_durability p \<noteq> None \<and> slot_lifespan p \<noteq> None \<and> slot_deadline p \<noteq> None \<and>
      slot_liveliness p \<noteq> None \<and> slot_liveliness_lease_duration p \<noteq> None \<and>
      slot_avoid_ros_namespace_conventions p \<noteq> None)"

text \<open>Two assigned slots compare equal under \<^verbatim>\<open>==\<close>.\<close>

definition field_eq :: "py_value option \<Rightarrow> py_value option \<Rightarrow> bool" where
  "field_eq s t =
     (case s of None \<Rightarrow> False | Some x \<Rightarrow> (case t of None \<Rightarrow> False | Some y \<Rightarrow> py_eq x y))"

text \<open>
  Arguments in range: a policy argument is a member or an integer that is the value of a
  member; the depth is an integer; a duration argument is a \<^verbatim>\<open>Duration\<close>; the flag is a
  \<^verbatim>\<open>bool\<close>. An omitted argument is in range.
\<close>

definition acceptable_policy :: "policy_cls \<Rightarrow> py_value \<Rightarrow> bool" where
  "acceptable_policy cls v = (case int_value v of None \<Rightarrow> False | Some i \<Rightarrow> has_value cls i)"

definition omitted_or :: "(py_value \<Rightarrow> bool) \<Rightarrow> py_value \<Rightarrow> bool" where
  "omitted_or P v = (v = PyNone \<or> P v)"

definition in_range_args :: "init_args \<Rightarrow> bool" where
  "in_range_args a =
     (omitted_or (acceptable_policy HistoryPolicy) (history a) \<and>
      omitted_or isinstance_int (depth a) \<and>
      omitted_or (acceptable_policy ReliabilityPolicy) (reliability a) \<and>
      omitted_or (acceptable_policy DurabilityPolicy) (durability a) \<and>
      omitted_or isinstance_Duration (lifespan a) \<and>
      omitted_or isinstance_Duration (deadline a) \<and>
      omitted_or (acceptable_policy LivelinessPolicy) (liveliness a) \<and>
      omitted_or isinstance_Duration (liveliness_lease_duration a) \<and>
      omitted_or isinstance_bool (avoid_ros_namespace_conventions a))"

text \<open>
  The default dictionary has, under each key the constructor reads, a value in range.
\<close>

definition default_dict_ok :: "py_dict \<Rightarrow> bool" where
  "default_dict_ok d =
     (slot_holds isinstance_int (d ''depth'') \<and>
      slot_holds (acceptable_policy ReliabilityPolicy) (d ''reliability'') \<and>
      slot_holds (acceptable_policy DurabilityPolicy) (d ''durability'') \<and>
      slot_holds isinstance_Duration (d ''lifespan'') \<and>
      slot_holds isinstance_Duration (d ''deadline'') \<and>
      slot_holds (acceptable_policy LivelinessPolicy) (d ''liveliness'') \<and>
      slot_holds isinstance_Duration (d ''liveliness_lease_duration'') \<and>
      slot_holds isinstance_bool (d ''avoid_ros_namespace_conventions''))"

text \<open>
  A dictionary of the shape the binding returns for \<^verbatim>\<open>qos_profile_default\<close>, and the call
  \<^verbatim>\<open>QoSProfile()\<close> with every argument omitted; both serve to evaluate the constructor on
  concrete inputs.
\<close>

definition example_default_dict :: py_dict where
  "example_default_dict =
     map_of
       [(''history'', PyEnum HistoryPolicy 1),
        (''depth'', PyInt 10),
        (''reliability'', PyEnum ReliabilityPolicy 1),
        (''durability'', PyEnum DurabilityPolicy 2),
        (''lifespan'', PyDuration 0),
        (''deadline'', PyDuration 0),
        (''liveliness'', PyEnum LivelinessPolicy 0),
        (''liveliness_lease_duration'', PyDuration 0),
        (''avoid_ros_namespace_conventions'', PyBool False)]"

definition no_arguments :: init_args where
  "no_arguments =
     \<lparr>history = PyNone, depth = PyNone, reliability = PyNone, durability = PyNone,
      lifespan = PyNone, deadline = PyNone, liveliness = PyNone,
      liveliness_lease_duration = PyNone, avoid_ros_namespace_conventions = PyNone\<rparr>"

text \<open>The profile \<^verbatim>\<open>QoSProfile(depth=n)\<close> under the example dictionary.\<close>

definition example_profile :: "int \<Rightarrow> QoSProfile" where
  "example_profile n =
     \<lparr>slot_history = Some KEEP_LAST, slot_depth = Some (PyInt n),
      slot_reliability = Some (PyEnum ReliabilityPolicy 1),
      slot_durability = Some (PyEnum DurabilityPolicy 2),
      slot_lifespan = Some (PyDuration 0), slot_deadline = Some (PyDuration 0),
      slot_liveliness = Some (PyEnum LivelinessPolicy 0),
      slot_liveliness_lease_duration = Some (PyDuration 0),
      slot_avoid_ros_namespace_conventions = Some (PyBool False)\<rparr>"

section \<open>Basic facts\<close>

lemma bind_return [simp]: "bind (return x) f = f x"
  by (cases "f x") (simp add: return_def)

lemma bind_raise [simp]: "bind (raise e) f = raise e"
  by (simp add: raise_def)

lemma bind_InrE:
  assumes "bind m f = (ws, Inr y)"
  obtains ws1 x ws2 where "m = (ws1, Inr x)" and "f x = (ws2, Inr y)" and "ws = ws1 @ ws2"
proof (cases m)
  case (Pair ws1 r)
  show ?thesis
  proof (cases r)
    case (Inl e)
    with Pair assms show ?thesis by simp
  next
    case (Inr x)
    with Pair assms that show ?thesis by (cases "f x") auto
  qed
qed

lemma return_eq [simp]: "(return x = (ws, Inr y)) = (ws = [] \<and> x = y)"
  by (auto simp: return_def)

lemma raise_neq [simp]: "raise e \<noteq> (ws, Inr y)"
  by (simp add: raise_def)

lemma enum_call_Inr:
  "enum_call cls v = (ws, Inr m) \<Longrightarrow>
     ws = [] \<and> (\<exists>i. int_value v = Some i \<and> has_value cls i \<and> m = PyEnum cls i)"
  by (auto simp: enum_call_def split: option.splits if_splits)

lemma assert_Inr: "assert b = (ws, Inr u) \<Longrightarrow> ws = [] \<and> b"
  by (auto simp: assert_def split: if_splits)

lemma set_history_Inr:
  "set_history self v = (ws, Inr p) \<Longrightarrow>
     ws = [] \<and> (\<exists>i. int_value v = Some i \<and> has_value HistoryPolicy i
        \<and> p = self\<lparr>slot_history := Some (PyEnum HistoryPolicy i)\<rparr>)"
  unfolding set_history_def
  by (elim bind_InrE) (auto dest!: enum_call_Inr assert_Inr)

lemma set_reliability_Inr:
  "set_reliability self v = (ws, Inr p) \<Longrightarrow>
     ws = [] \<and> (\<exists>i. int_value v = Some i \<and> has_value ReliabilityPolicy i
        \<and> p = self\<lparr>slot_reliability := Some (PyEnum ReliabilityPolicy i)\<rparr>)"
  unfolding set_reliability_def
  by (elim bind_InrE) (auto dest!: enum_call_Inr assert_Inr)

lemma set_durability_Inr:
  "set_durability self v = (ws, Inr p) \<Longrightarrow>
     ws = [] \<and> (\<exists>i. int_value v = Some i \<and> has_value DurabilityPolicy i
        \<and> p = self\<lparr>slot_durability := Some (PyEnum DurabilityPolicy i)\<rparr>)"
  unfolding set_durability_def
  by (elim bind_InrE) (auto dest!: enum_call_Inr assert_Inr)

lemma set_liveliness_Inr:
  "set_liveliness self v = (ws, Inr p) \<Longrightarrow>
     ws = [] \<and> (\<exists>i. int_value v = Some i \<and> has_value LivelinessPolicy i
        \<and> p = self\<lparr>slot_liveliness := Some (PyEnum LivelinessPolicy i)\<rparr>)"
  unfolding set_liveliness_def
  by (elim bind_InrE) (auto dest!: enum_call_Inr assert_Inr)

lemma set_depth_Inr:
  "set_depth self v = (ws, Inr p) \<Longrightarrow>
     isinstance_int v \<and> p = self\<lparr>slot_depth := Some v\<rparr> \<and>
     (\<exists>h. slot_history self = Some h \<and>
        ws = (if py_eq h KEEP_LAST \<and> py_eq v (PyInt 0) then [UserWarning zero_depth_text] else []))"
  unfolding set_depth_def
  by (elim bind_InrE)
     (auto dest!: assert_Inr simp: read_slot_def warn_def split: option.splits if_splits)

lemma set_lifespan_Inr:
  "set_lifespan self v = (ws, Inr p) \<Longrightarrow>
     ws = [] \<and> isinstance_Duration v \<and> p = self\<lparr>slot_lifespan := Some v\<rparr>"
  unfolding set_lifespan_def by (elim bind_InrE) (auto dest!: assert_Inr)

lemma set_deadline_Inr:
  "set_deadline self v = (ws, Inr p) \<Longrightarrow>
     ws = [] \<and> isinstance_Duration v \<and> p = self\<lparr>slot_deadline := Some v\<rparr>"
  unfolding set_deadline_def by (elim bind_InrE) (auto dest!: assert_Inr)

lemma set_liveliness_lease_duration_Inr:
  "set_liveliness_lease_duration self v = (ws, Inr p) \<Longrightarrow>
     ws = [] \<and> isinstance_Duration v \<and> p = self\<lparr>slot_liveliness_lease_duration := Some v\<rparr>"
  unfolding set_liveliness_lease_duration_def by (elim bind_InrE) (auto dest!: assert_Inr)

lemma set_avoid_Inr:
  "set_avoid_ros_namespace_conventions self v = (ws, Inr p) \<Longrightarrow>
     ws = [] \<and> isinstance_bool v \<and> p = self\<lparr>slot_avoid_ros_namespace_conventions := Some v\<rparr>"
  unfolding set_avoid_ros_namespace_conventions_def by (elim bind_InrE) (auto dest!: assert_Inr)

lemma default_unless_given_Inr:
  "default_unless_given d key arg = (ws, Inr v) \<Longrightarrow> ws = [] \<and> chosen d key arg = Some v"
  by (auto simp: default_unless_given_def getitem_def chosen_def split: if_splits option.splits)

lemma resolve_Inr:
  "(if history a = PyNone then (if depth a = PyNone then raise e else return KEEP_LAST)
    else return (history a)) = (ws, Inr hist) \<Longrightarrow>
   ws = [] \<and> \<not> (history a = PyNone \<and> depth a = PyNone) \<and>
   hist = (if history a = PyNone then KEEP_LAST else history a)"
  by (auto split: if_splits)

lemma guard_Inr: "(if c then raise e else return ()) = (ws, Inr u) \<Longrightarrow> ws = [] \<and> \<not> c"
  by (auto split: if_splits)

lemma read_slot_Inr: "read_slot s = (ws, Inr v) \<Longrightarrow> ws = [] \<and> s = Some v"
  by (auto simp: read_slot_def split: option.splits)

lemma init_Inr:
  assumes "QoSProfile_init d a = (ws, Inr p)"
  shows "\<exists>hi dv rv ri duv di ls dl lv li ld av.
     \<not> (history a = PyNone \<and> depth a = PyNone) \<and>
     int_value (if history a = PyNone then KEEP_LAST else history a) = Some hi \<and>
     has_value HistoryPolicy hi \<and>
     \<not> (hi = 1 \<and> depth a = PyNone) \<and>
     chosen d ''depth'' (depth a) = Some dv \<and> isinstance_int dv \<and>
     chosen d ''reliability'' (reliability a) = Some rv \<and> int_value rv = Some ri \<and>
     has_value ReliabilityPolicy ri \<and>
     chosen d ''durability'' (durability a) = Some duv \<and> int_value duv = Some di \<and>
     has_value DurabilityPolicy di \<and>
     chosen d ''lifespan'' (lifespan a) = Some ls \<and> isinstance_Duration ls \<and>
     chosen d ''deadline'' (deadline a) = Some dl \<and> isinstance_Duration dl \<and>
     chosen d ''liveliness'' (liveliness a) = Some lv \<and> int_value lv = Some li \<and>
     has_value LivelinessPolicy li \<and>
     chosen d ''liveliness_lease_duration'' (liveliness_lease_duration a) = Some ld \<and>
     isinstance_Duration ld \<and>
     chosen d ''avoid_ros_namespace_conventions'' (avoid_ros_namespace_conventions a) = Some av \<and>
     isinstance_bool av \<and>
     p = \<lparr>slot_history = Some (PyEnum HistoryPolicy hi), slot_depth = Some dv,
          slot_reliability = Some (PyEnum ReliabilityPolicy ri),
          slot_durability = Some (PyEnum DurabilityPolicy di),
          slot_lifespan = Some ls, slot_deadline = Some dl,
          slot_liveliness = Some (PyEnum LivelinessPolicy li),
          slot_liveliness_lease_duration = Some ld,
          slot_avoid_ros_namespace_conventions = Some av\<rparr> \<and>
     ws = (if hi = 1 \<and> py_eq dv (PyInt 0) then [UserWarning zero_depth_text] else [])"
  using assms unfolding QoSProfile_init_def
  apply (elim bind_InrE)
  apply (drule resolve_Inr)
  apply (drule guard_Inr)
  apply (drule read_slot_Inr)
  apply (drule set_history_Inr)
  apply (drule set_depth_Inr)
  apply (drule set_reliability_Inr)
  apply (drule set_durability_Inr)
  apply (drule set_lifespan_Inr)
  apply (drule set_deadline_Inr)
  apply (drule set_liveliness_Inr)
  apply (drule set_liveliness_lease_duration_Inr)
  apply (drule set_avoid_Inr)
  apply (drule default_unless_given_Inr)+
  apply (elim conjE exE)
  apply hypsubst
  apply (rule_tac x=i in exI)
  apply (rule_tac x=xd in exI)
  apply (rule_tac x=xf in exI)
  apply (rule_tac x=ia in exI)
  apply (rule_tac x=xh in exI)
  apply (rule_tac x=ib in exI)
  apply (rule_tac x=xj in exI)
  apply (rule_tac x=xl in exI)
  apply (rule_tac x=xn in exI)
  apply (rule_tac x=ic in exI)
  apply (rule_tac x=xp in exI)
  apply (rule_tac x=xr in exI)
  apply (auto simp: new_object_def)
  done


lemma returns_iff: "returns m = (\<exists>ws x. m = (ws, Inr x))"
  by (cases m) (auto simp: returns_def split: sum.splits)

lemma returns_return [simp]: "returns (return x)"
  by (simp add: returns_def return_def)

lemma returns_bind:
  assumes "returns m" and "\<And>ws x. m = (ws, Inr x) \<Longrightarrow> returns (f x)"
  shows "returns (bind m f)"
proof -
  from assms(1) obtain ws x where m: "m = (ws, Inr x)" by (auto simp: returns_iff)
  from assms(2)[OF m] obtain ws' y where "f x = (ws', Inr y)" by (auto simp: returns_iff)
  with m show ?thesis by (simp add: returns_iff)
qed

lemma returns_assert: "b \<Longrightarrow> returns (assert b)"
  by (simp add: assert_def)

lemma acceptable_policy_int: "acceptable_policy cls v \<Longrightarrow> isinstance_int v"
  by (auto simp: acceptable_policy_def isinstance_int_def split: option.splits)

lemma returns_enum_call: "acceptable_policy cls v \<Longrightarrow> returns (enum_call cls v)"
  by (auto simp: acceptable_policy_def enum_call_def split: option.splits)

lemma returns_set_reliability: "acceptable_policy ReliabilityPolicy v \<Longrightarrow> returns (set_reliability self v)"
  unfolding set_reliability_def
  by (intro returns_bind returns_assert returns_enum_call returns_return)
     (auto dest: acceptable_policy_int)

lemma returns_set_durability: "acceptable_policy DurabilityPolicy v \<Longrightarrow> returns (set_durability self v)"
  unfolding set_durability_def
  by (intro returns_bind returns_assert returns_enum_call returns_return)
     (auto dest: acceptable_policy_int)

lemma returns_set_liveliness: "acceptable_policy LivelinessPolicy v \<Longrightarrow> returns (set_liveliness self v)"
  unfolding set_liveliness_def
  by (intro returns_bind returns_assert returns_enum_call returns_return)
     (auto dest: acceptable_policy_int)

lemma returns_set_depth:
  "isinstance_int v \<Longrightarrow> slot_history self \<noteq> None \<Longrightarrow> returns (set_depth self v)"
  by (auto simp: set_depth_def assert_def read_slot_def warn_def returns_def return_def)

lemma returns_set_lifespan: "isinstance_Duration v \<Longrightarrow> returns (set_lifespan self v)"
  by (simp add: set_lifespan_def assert_def)

lemma returns_set_deadline: "isinstance_Duration v \<Longrightarrow> returns (set_deadline self v)"
  by (simp add: set_deadline_def assert_def)

lemma returns_set_liveliness_lease_duration:
  "isinstance_Duration v \<Longrightarrow> returns (set_liveliness_lease_duration self v)"
  by (simp add: set_liveliness_lease_duration_def assert_def)

lemma returns_set_avoid:
  "isinstance_bool v \<Longrightarrow> returns (set_avoid_ros_namespace_conventions self v)"
  by (simp add: set_avoid_ros_namespace_conventions_def assert_def)

lemma chosen_in_range:
  assumes "omitted_or P arg" and "slot_holds P (d key)"
  shows "\<exists>v. chosen d key arg = Some v \<and> P v"
  using assms by (auto simp: omitted_or_def slot_holds_def chosen_def split: option.splits)

lemma default_unless_given_chosen:
  "chosen d key arg = Some v \<Longrightarrow> default_unless_given d key arg = return v"
  by (auto simp: chosen_def default_unless_given_def getitem_def split: if_splits)

lemma field_step_returns:
  assumes "omitted_or P arg" and "slot_holds P (d key)"
    and "\<And>v. P v \<Longrightarrow> returns (setter v)"
    and "\<And>v ws self. setter v = (ws, Inr self) \<Longrightarrow> returns (f self)"
  shows "returns (bind (default_unless_given d key arg) (\<lambda>v. bind (setter v) f))"
proof -
  from chosen_in_range[of P arg d key, OF assms(1,2)] obtain v where v: "chosen d key arg = Some v" "P v"
    by blast
  have "returns (bind (setter v) f)"
    by (rule returns_bind[OF assms(3)[OF v(2)]]) (rule assms(4))
  with v(1) show ?thesis by (simp add: default_unless_given_chosen)
qed

lemma last_step_returns:
  assumes "omitted_or P arg" and "slot_holds P (d key)"
    and "\<And>v. P v \<Longrightarrow> returns (setter v)"
  shows "returns (bind (default_unless_given d key arg) setter)"
proof -
  from chosen_in_range[of P arg d key, OF assms(1,2)] obtain v where v: "chosen d key arg = Some v" "P v"
    by blast
  with assms(3) show ?thesis by (simp add: default_unless_given_chosen)
qed

lemma init_fields_returns:
  assumes a: "in_range_args a" and d: "default_dict_ok d" and h: "slot_history self0 \<noteq> None"
  shows "returns (init_fields d a self0)"
  unfolding init_fields_def
  apply (rule field_step_returns[where P = isinstance_int and d = d])
  using a d apply (simp_all add: in_range_args_def default_dict_ok_def returns_set_depth h)
  apply (rule field_step_returns[where P = "acceptable_policy ReliabilityPolicy" and d = d])
  apply (simp_all add: returns_set_reliability)
  apply (rule field_step_returns[where P = "acceptable_policy DurabilityPolicy" and d = d])
  apply (simp_all add: returns_set_durability)
  apply (rule field_step_returns[where P = isinstance_Duration and d = d])
  apply (simp_all add: returns_set_lifespan)
  apply (rule field_step_returns[where P = isinstance_Duration and d = d])
  apply (simp_all add: returns_set_deadline)
  apply (rule field_step_returns[where P = "acceptable_policy LivelinessPolicy" and d = d])
  apply (simp_all add: returns_set_liveliness)
  apply (rule field_step_returns[where P = isinstance_Duration and d = d])
  apply (simp_all add: returns_set_liveliness_lease_duration)
  apply (rule last_step_returns[where P = isinstance_bool and d = d])
  apply (simp_all add: returns_set_avoid)
  done


lemma no_invalid_return [simp]: "no_invalid (return x)"
  by (simp add: no_invalid_def return_def)

lemma no_invalid_raise [simp]: "no_invalid (raise e) = (exc_cls e \<noteq> InvalidQoSProfileException_cls)"
  by (simp add: no_invalid_def raise_def)

lemma no_invalid_bind:
  assumes "no_invalid m" and "\<And>x. no_invalid (f x)"
  shows "no_invalid (bind m f)"
proof (cases m)
  case (Pair ws r)
  show ?thesis
  proof (cases r)
    case (Inl e)
    with Pair assms(1) show ?thesis by (simp add: no_invalid_def)
  next
    case (Inr x)
    with Pair assms(2)[of x] show ?thesis by (cases "f x") (simp add: no_invalid_def)
  qed
qed

lemma no_invalid_assert [simp]: "no_invalid (assert b)"
  by (simp add: assert_def)

lemma no_invalid_enum_call [simp]: "no_invalid (enum_call cls v)"
  by (simp add: enum_call_def split: option.splits)

lemma no_invalid_read_slot [simp]: "no_invalid (read_slot s)"
  by (simp add: read_slot_def split: option.splits)

lemma no_invalid_warn [simp]: "no_invalid (warn t)"
  by (simp add: warn_def no_invalid_def)

lemma no_invalid_default_unless_given [simp]: "no_invalid (default_unless_given d key arg)"
  by (simp add: default_unless_given_def getitem_def split: option.splits)

lemma no_invalid_setters [simp]:
  "no_invalid (set_history self v)"
  "no_invalid (set_depth self v)"
  "no_invalid (set_reliability self v)"
  "no_invalid (set_durability self v)"
  "no_invalid (set_lifespan self v)"
  "no_invalid (set_deadline self v)"
  "no_invalid (set_liveliness self v)"
  "no_invalid (set_liveliness_lease_duration self v)"
  "no_invalid (set_avoid_ros_namespace_conventions self v)"
  unfolding set_history_def set_depth_def set_reliability_def set_durability_def
    set_lifespan_def set_deadline_def set_liveliness_def set_liveliness_lease_duration_def
    set_avoid_ros_namespace_conventions_def
  by (intro no_invalid_bind; simp)+

lemma no_invalid_init_fields: "no_invalid (init_fields d a self0)"
  unfolding init_fields_def
  by (intro no_invalid_bind no_invalid_default_unless_given no_invalid_setters)

lemma set_history_closed:
  "set_history self v =
     (case int_value v of
        None \<Rightarrow> raise (Exc AssertionError_cls [])
      | Some i \<Rightarrow>
          if has_value HistoryPolicy i then return (self\<lparr>slot_history := Some (PyEnum HistoryPolicy i)\<rparr>)
          else raise (Exc ValueError_cls []))"
  by (cases v) (auto simp: set_history_def assert_def isinstance_int_def enum_call_def)

lemma init_split:
  "QoSProfile_init d a =
     bind (if history a = PyNone then
             (if depth a = PyNone then
                raise (InvalidQoSProfileException ''History and/or depth settings are required.'')
              else return KEEP_LAST)
           else return (history a)) (\<lambda>hist.
     bind (set_history new_object hist) (\<lambda>self.
     bind (read_slot (slot_history self)) (\<lambda>h.
     bind (if py_eq KEEP_LAST h \<and> depth a = PyNone then
             raise (InvalidQoSProfileException
                      ''History set to KEEP_LAST without a depth setting.'')
           else return ()) (\<lambda>_.
     init_fields d a self))))"
  unfolding QoSProfile_init_def init_fields_def ..

lemma init_cases:
  "QoSProfile_init d a =
     (if history a = PyNone \<and> depth a = PyNone then
        raise (InvalidQoSProfileException ''History and/or depth settings are required.'')
      else
        (case int_value (if history a = PyNone then KEEP_LAST else history a) of
           None \<Rightarrow> raise (Exc AssertionError_cls [])
         | Some i \<Rightarrow>
             if \<not> has_value HistoryPolicy i then raise (Exc ValueError_cls [])
             else if i = 1 \<and> depth a = PyNone then
               raise (InvalidQoSProfileException
                        ''History set to KEEP_LAST without a depth setting.'')
             else init_fields d a (new_object\<lparr>slot_history := Some (PyEnum HistoryPolicy i)\<rparr>)))"
  by (auto simp: init_split set_history_closed read_slot_def split: option.splits)

lemma py_eq_KEEP_LAST: "py_eq v (PyEnum c 1) = (int_value v = Some 1)"
  by (cases v) auto

lemma has_value_KEEP_LAST: "has_value HistoryPolicy 1"
  by (simp add: has_value_def)

lemma exc_cls_Invalid [simp]:
  "exc_cls (InvalidQoSProfileException msg) = InvalidQoSProfileException_cls"
  by (simp add: InvalidQoSProfileException_def InvalidQoSProfileException_init_def
      BaseException_new_def)

lemma exc_args_Invalid [simp]: "exc_args (InvalidQoSProfileException msg) = [StrArg msg]"
  by (simp add: InvalidQoSProfileException_def InvalidQoSProfileException_init_def
      BaseException_new_def)

lemma raises_cls_raise [simp]: "raises_cls c (raise e) = (exc_cls e = c)"
  by (simp add: raises_cls_def raise_def)

lemma no_invalid_raises: "no_invalid m \<Longrightarrow> \<not> raises_cls InvalidQoSProfileException_cls m"
  by (auto simp: no_invalid_def raises_cls_def split: sum.splits)

lemma no_invalidD:
  "no_invalid m \<Longrightarrow> m = (ws, Inl e) \<Longrightarrow> exc_cls e \<noteq> InvalidQoSProfileException_cls"
  by (simp add: no_invalid_def)

lemma returns_not_raises: "returns m \<Longrightarrow> \<not> raises_cls c m"
  by (auto simp: returns_def raises_cls_def split: sum.splits)

lemma init_raises_iff:
  "raises_cls InvalidQoSProfileException_cls (QoSProfile_init d a) =
     ((history a = PyNone \<and> depth a = PyNone) \<or>
      (py_eq (history a) KEEP_LAST \<and> depth a = PyNone))"
proof (cases "history a = PyNone \<and> depth a = PyNone")
  case True
  then show ?thesis by (simp add: init_cases)
next
  case False
  show ?thesis
  proof (cases "depth a = PyNone")
    case True
    with False have h: "history a \<noteq> PyNone" by simp
    show ?thesis
      using True h no_invalid_raises[OF no_invalid_init_fields] has_value_KEEP_LAST
      by (auto simp: init_cases py_eq_KEEP_LAST split: option.splits)
  next
    case d: False
    then show ?thesis
      using no_invalid_raises[OF no_invalid_init_fields]
      by (auto simp: init_cases split: option.splits)
  qed
qed

lemma init_returns:
  assumes "in_range_args a" and "default_dict_ok d"
    and "\<not> (history a = PyNone \<and> depth a = PyNone)"
    and "\<not> (py_eq (history a) KEEP_LAST \<and> depth a = PyNone)"
  shows "returns (QoSProfile_init d a)"
proof -
  have hist: "omitted_or (acceptable_policy HistoryPolicy) (history a)"
    using assms(1) by (simp add: in_range_args_def)
  obtain i where i: "int_value (if history a = PyNone then KEEP_LAST else history a) = Some i"
    and hv: "has_value HistoryPolicy i"
    using hist has_value_KEEP_LAST
    by (cases "history a = PyNone")
       (auto simp: omitted_or_def acceptable_policy_def split: option.splits)
  have "\<not> (i = 1 \<and> depth a = PyNone)"
    using assms(3,4) i by (auto simp: py_eq_KEEP_LAST split: if_splits)
  then have "QoSProfile_init d a =
      init_fields d a (new_object\<lparr>slot_history := Some (PyEnum HistoryPolicy i)\<rparr>)"
    using assms(3) i hv by (auto simp: init_cases)
  then show ?thesis
    using init_fields_returns[OF assms(1,2)] by simp
qed

lemma example_default_dict_ok: "default_dict_ok example_default_dict"
  by (simp add: default_dict_ok_def example_default_dict_def slot_holds_def isinstance_int_def
      acceptable_policy_def has_value_def)

section \<open>Construction: when it raises\<close>

text \<open>
  Claim C2. Constructing a profile raises \<^verbatim>\<open>InvalidQoSProfileException\<close> exactly when
  history and depth are both omitted, or the history argument equals \<^verbatim>\<open>KEEP_LAST\<close> and the
  depth is omitted. With any other combination of arguments whose values are in range,
  and a default dictionary whose entries are in range, the constructor returns a profile.
\<close>

theorem construction_raises_invalid_iff:
  "(raises_cls InvalidQoSProfileException_cls (QoSProfile_init d a) =
      ((history a = PyNone \<and> depth a = PyNone) \<or>
       (py_eq (history a) KEEP_LAST \<and> depth a = PyNone))) \<and>
   (in_range_args a \<and> default_dict_ok d \<and>
    \<not> (history a = PyNone \<and> depth a = PyNone) \<and>
    \<not> (py_eq (history a) KEEP_LAST \<and> depth a = PyNone) \<longrightarrow>
      returns (QoSProfile_init d a))"
  using init_raises_iff init_returns by blast

theorem construction_raises_invalid_iff_witness:
  "raises_cls InvalidQoSProfileException_cls (QoSProfile_init example_default_dict no_arguments) \<and>
   in_range_args (no_arguments\<lparr>depth := PyInt 5\<rparr>) \<and> default_dict_ok example_default_dict \<and>
   returns (QoSProfile_init example_default_dict (no_arguments\<lparr>depth := PyInt 5\<rparr>))"
  using construction_raises_invalid_iff[of example_default_dict no_arguments]
    construction_raises_invalid_iff[of example_default_dict "no_arguments\<lparr>depth := PyInt 5\<rparr>"]
    example_default_dict_ok
  by (simp add: no_arguments_def in_range_args_def omitted_or_def isinstance_int_def)

text \<open>
  Claim C9. When the history argument is omitted and a depth is given, the constructor
  returns, and the history of the profile is \<^verbatim>\<open>KEEP_LAST\<close>, whatever the default dictionary
  holds under \<^verbatim>\<open>history\<close>. (The other arguments and the default entries are in range.)
\<close>

theorem omitted_history_is_KEEP_LAST:
  assumes "history a = PyNone" and "depth a \<noteq> PyNone"
    and "in_range_args a" and "default_dict_ok d"
  shows "\<exists>ws p. QoSProfile_init d a = (ws, Inr p) \<and> slot_history p = Some KEEP_LAST"
proof -
  have "returns (QoSProfile_init d a)"
    using init_returns[OF assms(3,4)] assms(1,2) by simp
  then obtain ws p where r: "QoSProfile_init d a = (ws, Inr p)"
    by (auto simp: returns_iff)
  from init_Inr[OF r] assms(1) have "slot_history p = Some KEEP_LAST" by auto
  with r show ?thesis by blast
qed

theorem omitted_history_is_KEEP_LAST_witness:
  "history (no_arguments\<lparr>depth := PyInt 5\<rparr>) = PyNone \<and>
   depth (no_arguments\<lparr>depth := PyInt 5\<rparr>) \<noteq> PyNone \<and>
   in_range_args (no_arguments\<lparr>depth := PyInt 5\<rparr>) \<and>
   default_dict_ok (example_default_dict(''history'' \<mapsto> PyEnum HistoryPolicy 2)) \<and>
   (\<exists>ws p. QoSProfile_init (example_default_dict(''history'' \<mapsto> PyEnum HistoryPolicy 2))
              (no_arguments\<lparr>depth := PyInt 5\<rparr>) = (ws, Inr p) \<and>
           slot_history p = Some KEEP_LAST)"
  using omitted_history_is_KEEP_LAST[of "no_arguments\<lparr>depth := PyInt 5\<rparr>"
      "example_default_dict(''history'' \<mapsto> PyEnum HistoryPolicy 2)"]
    example_default_dict_ok
  by (simp add: no_arguments_def in_range_args_def omitted_or_def isinstance_int_def
      default_dict_ok_def)

section \<open>The exception object\<close>

text \<open>
  Claim C10 says that a raised \<^verbatim>\<open>InvalidQoSProfileException\<close> has empty \<^verbatim>\<open>args\<close>. It has
  not: \<^verbatim>\<open>QoSProfile()\<close> raises the exception whose \<^verbatim>\<open>args\<close> hold the text given where it is
  raised.
\<close>

theorem invalid_exception_args_not_empty:
  "QoSProfile_init example_default_dict no_arguments =
     ([], Inl (InvalidQoSProfileException ''History and/or depth settings are required.'')) \<and>
   exc_args (InvalidQoSProfileException ''History and/or depth settings are required.'') =
     [StrArg ''History and/or depth settings are required.'']"
  by (simp add: init_cases no_arguments_def raise_def)

text \<open>
  Claim C10, amended. Every \<^verbatim>\<open>InvalidQoSProfileException\<close> raised by the constructor
  carries the diagnostic text passed where it is raised: its \<^verbatim>\<open>args\<close> are not empty and
  contain that text.
\<close>

theorem invalid_exception_carries_text:
  assumes "QoSProfile_init d a = (ws, Inl e)"
    and "exc_cls e = InvalidQoSProfileException_cls"
  shows "exc_args e \<noteq> [] \<and>
     mentions (if history a = PyNone \<and> depth a = PyNone
               then ''History and/or depth settings are required.''
               else ''History set to KEEP_LAST without a depth setting.'') e"
proof -
  from assms have
    "e = InvalidQoSProfileException
           (if history a = PyNone \<and> depth a = PyNone
            then ''History and/or depth settings are required.''
            else ''History set to KEEP_LAST without a depth setting.'')"
    by (auto simp: init_cases raise_def split: if_splits option.splits
        dest: no_invalidD[OF no_invalid_init_fields])
  then show ?thesis by (auto simp: mentions_def)
qed

theorem invalid_exception_carries_text_witness:
  "QoSProfile_init example_default_dict (no_arguments\<lparr>history := PyInt 1\<rparr>) =
     ([], Inl (InvalidQoSProfileException ''History set to KEEP_LAST without a depth setting.'')) \<and>
   exc_cls (InvalidQoSProfileException ''History set to KEEP_LAST without a depth setting.'') =
     InvalidQoSProfileException_cls \<and>
   exc_args (InvalidQoSProfileException ''History set to KEEP_LAST without a depth setting.'')
     \<noteq> [] \<and>
   mentions ''History set to KEEP_LAST without a depth setting.''
     (InvalidQoSProfileException ''History set to KEEP_LAST without a depth setting.'')"
  using invalid_exception_carries_text[of example_default_dict
      "no_arguments\<lparr>history := PyInt 1\<rparr>" "[]"
      "InvalidQoSProfileException ''History set to KEEP_LAST without a depth setting.''"]
  by (simp add: init_cases no_arguments_def raise_def has_value_KEEP_LAST)

section \<open>Invariants of construction and assignment\<close>

lemma py_eq_refl [simp]: "py_eq v v"
  by (cases v) auto

lemma py_eq_sym: "py_eq v w = py_eq w v"
  by (cases v; cases w) auto

lemma init_profile_ok: "QoSProfile_init d a = (ws, Inr p) \<Longrightarrow> profile_ok p"
  by (drule init_Inr)
     (auto simp: profile_ok_def enum_fields_defined_def slot_holds_def member_of_def)

lemma after_profile_ok: "profile_ok p \<Longrightarrow> profile_ok (after p x)"
proof (cases x)
  case (Assign_history v)
  then show "profile_ok p \<Longrightarrow> ?thesis"
    by (auto simp: after_def profile_ok_def enum_fields_defined_def slot_holds_def member_of_def
        dest!: set_history_Inr split: prod.splits sum.splits)
next
  case (Assign_depth v)
  then show "profile_ok p \<Longrightarrow> ?thesis"
    by (auto simp: after_def profile_ok_def enum_fields_defined_def slot_holds_def member_of_def
        dest!: set_depth_Inr split: prod.splits sum.splits)
next
  case (Assign_reliability v)
  then show "profile_ok p \<Longrightarrow> ?thesis"
    by (auto simp: after_def profile_ok_def enum_fields_defined_def slot_holds_def member_of_def
        dest!: set_reliability_Inr split: prod.splits sum.splits)
next
  case (Assign_durability v)
  then show "profile_ok p \<Longrightarrow> ?thesis"
    by (auto simp: after_def profile_ok_def enum_fields_defined_def slot_holds_def member_of_def
        dest!: set_durability_Inr split: prod.splits sum.splits)
next
  case (Assign_lifespan v)
  then show "profile_ok p \<Longrightarrow> ?thesis"
    by (auto simp: after_def profile_ok_def enum_fields_defined_def slot_holds_def member_of_def
        dest!: set_lifespan_Inr split: prod.splits sum.splits)
next
  case (Assign_deadline v)
  then show "profile_ok p \<Longrightarrow> ?thesis"
    by (auto simp: after_def profile_ok_def enum_fields_defined_def slot_holds_def member_of_def
        dest!: set_deadline_Inr split: prod.splits sum.splits)
next
  case (Assign_liveliness v)
  then show "profile_ok p \<Longrightarrow> ?thesis"
    by (auto simp: after_def profile_ok_def enum_fields_defined_def slot_holds_def member_of_def
        dest!: set_liveliness_Inr split: prod.splits sum.splits)
next
  case (Assign_liveliness_lease_duration v)
  then show "profile_ok p \<Longrightarrow> ?thesis"
    by (auto simp: after_def profile_ok_def enum_fields_defined_def slot_holds_def member_of_def
        dest!: set_liveliness_lease_duration_Inr split: prod.splits sum.splits)
next
  case (Assign_avoid_ros_namespace_conventions v)
  then show "profile_ok p \<Longrightarrow> ?thesis"
    by (auto simp: after_def profile_ok_def enum_fields_defined_def slot_holds_def member_of_def
        dest!: set_avoid_Inr split: prod.splits sum.splits)
qed

lemma after_all_profile_ok: "profile_ok p \<Longrightarrow> profile_ok (after_all p xs)"
  unfolding after_all_def
  by (induction xs arbitrary: p) (simp_all add: after_profile_ok)

lemma set_depth_rejects:
  "\<not> isinstance_int v \<Longrightarrow> set_depth q v = raise (Exc AssertionError_cls [])"
  by (simp add: set_depth_def assert_def)

lemma no_arguments_depth [simp]:
  "history (no_arguments\<lparr>depth := x\<rparr>) = PyNone"
  "depth (no_arguments\<lparr>depth := x\<rparr>) = x"
  "reliability (no_arguments\<lparr>depth := x\<rparr>) = PyNone"
  "durability (no_arguments\<lparr>depth := x\<rparr>) = PyNone"
  "lifespan (no_arguments\<lparr>depth := x\<rparr>) = PyNone"
  "deadline (no_arguments\<lparr>depth := x\<rparr>) = PyNone"
  "liveliness (no_arguments\<lparr>depth := x\<rparr>) = PyNone"
  "liveliness_lease_duration (no_arguments\<lparr>depth := x\<rparr>) = PyNone"
  "avoid_ros_namespace_conventions (no_arguments\<lparr>depth := x\<rparr>) = PyNone"
  by (simp_all add: no_arguments_def)

lemma in_range_no_arguments_depth: "in_range_args (no_arguments\<lparr>depth := PyInt n\<rparr>)"
  by (simp add: in_range_args_def omitted_or_def isinstance_int_def)

lemma example_profile_slots [simp]:
  "slot_history (example_profile n) = Some KEEP_LAST"
  "slot_depth (example_profile n) = Some (PyInt n)"
  "slot_reliability (example_profile n) = Some (PyEnum ReliabilityPolicy 1)"
  "slot_durability (example_profile n) = Some (PyEnum DurabilityPolicy 2)"
  "slot_lifespan (example_profile n) = Some (PyDuration 0)"
  "slot_deadline (example_profile n) = Some (PyDuration 0)"
  "slot_liveliness (example_profile n) = Some (PyEnum LivelinessPolicy 0)"
  "slot_liveliness_lease_duration (example_profile n) = Some (PyDuration 0)"
  "slot_avoid_ros_namespace_conventions (example_profile n) = Some (PyBool False)"
  by (simp_all add: example_profile_def)

lemma example_default_dict_entries [simp]:
  "example_default_dict ''reliability'' = Some (PyEnum ReliabilityPolicy 1)"
  "example_default_dict ''durability'' = Some (PyEnum DurabilityPolicy 2)"
  "example_default_dict ''lifespan'' = Some (PyDuration 0)"
  "example_default_dict ''deadline'' = Some (PyDuration 0)"
  "example_default_dict ''liveliness'' = Some (PyEnum LivelinessPolicy 0)"
  "example_default_dict ''liveliness_lease_duration'' = Some (PyDuration 0)"
  "example_default_dict ''avoid_ros_namespace_conventions'' = Some (PyBool False)"
  by (simp_all add: example_default_dict_def)

lemma init_example_depth:
  "QoSProfile_init example_default_dict (no_arguments\<lparr>depth := PyInt n\<rparr>) =
     (if n = 0 then [UserWarning zero_depth_text] else [], Inr (example_profile n))"
proof -
  let ?a = "no_arguments\<lparr>depth := PyInt n\<rparr>"
  have "returns (QoSProfile_init example_default_dict ?a)"
    by (rule init_returns[OF _ example_default_dict_ok])
       (simp_all add: no_arguments_def in_range_args_def omitted_or_def isinstance_int_def)
  then obtain ws p where r: "QoSProfile_init example_default_dict ?a = (ws, Inr p)"
    by (auto simp: returns_iff)
  from init_Inr[OF r] show ?thesis
    unfolding r
    by (auto simp: no_arguments_def chosen_def example_default_dict_def example_profile_def)
qed

lemma py_eq_zero: "py_eq v (PyInt 0) = (int_value v = Some 0)"
  by (cases v) auto

lemma set_depth_zero:
  assumes "slot_history q = Some h" and "py_eq h KEEP_LAST" and "py_eq v (PyInt 0)"
  shows "set_depth q v = ([UserWarning zero_depth_text], Inr (q\<lparr>slot_depth := Some v\<rparr>))"
  using assms
  by (auto simp: set_depth_def assert_def isinstance_int_def py_eq_zero read_slot_def warn_def
      return_def)

lemma set_depth_example:
  "set_depth (example_profile n) (PyInt 0) =
     ([UserWarning zero_depth_text], Inr ((example_profile n)\<lparr>slot_depth := Some (PyInt 0)\<rparr>))"
  by (rule set_depth_zero[where h = KEEP_LAST]) simp_all

lemma init_zero_depth:
  assumes "in_range_args a" and "default_dict_ok d"
    and "py_eq (if history a = PyNone then KEEP_LAST else history a) KEEP_LAST"
    and "py_eq (depth a) (PyInt 0)"
  shows "\<exists>p. QoSProfile_init d a = ([UserWarning zero_depth_text], Inr p) \<and>
           slot_depth p = Some (depth a)"
proof -
  from assms(4) have dn: "depth a \<noteq> PyNone" by auto
  then have "returns (QoSProfile_init d a)"
    by (intro init_returns[OF assms(1,2)]) simp_all
  then obtain ws p where r: "QoSProfile_init d a = (ws, Inr p)"
    by (auto simp: returns_iff)
  from init_Inr[OF r] assms(3,4) dn
  have "ws = [UserWarning zero_depth_text] \<and> slot_depth p = Some (depth a)"
    by (auto simp: chosen_def py_eq_KEEP_LAST)
  with r show ?thesis by simp
qed

lemma init_warning:
  assumes "QoSProfile_init d a = (ws, Inr p)" and "ws \<noteq> []"
  shows "ws = [UserWarning zero_depth_text] \<and> slot_history p = Some KEEP_LAST \<and>
         field_eq (slot_depth p) (Some (PyInt 0))"
  using init_Inr[OF assms(1)] assms(2)
  by (auto simp: field_eq_def split: if_splits)

lemma assign_warning:
  assumes "assign q x = (ws, Inr q')" and "ws \<noteq> []"
  shows "ws = [UserWarning zero_depth_text] \<and> (\<exists>v. x = Assign_depth v \<and> py_eq v (PyInt 0)) \<and>
         field_eq (slot_history q) (Some KEEP_LAST)"
proof (cases x)
  case (Assign_depth v)
  with assms show ?thesis
    by (auto simp: field_eq_def dest!: set_depth_Inr split: if_splits)
next
  case (Assign_history v) with assms show ?thesis by (auto dest!: set_history_Inr)
next
  case (Assign_reliability v) with assms show ?thesis by (auto dest!: set_reliability_Inr)
next
  case (Assign_durability v) with assms show ?thesis by (auto dest!: set_durability_Inr)
next
  case (Assign_lifespan v) with assms show ?thesis by (auto dest!: set_lifespan_Inr)
next
  case (Assign_deadline v) with assms show ?thesis by (auto dest!: set_deadline_Inr)
next
  case (Assign_liveliness v) with assms show ?thesis by (auto dest!: set_liveliness_Inr)
next
  case (Assign_liveliness_lease_duration v)
  with assms show ?thesis by (auto dest!: set_liveliness_lease_duration_Inr)
next
  case (Assign_avoid_ros_namespace_conventions v)
  with assms show ?thesis by (auto dest!: set_avoid_Inr)
qed

lemma init_defaults:
  assumes "QoSProfile_init d a = (ws, Inr p)"
  shows "(reliability a = PyNone \<longrightarrow> field_eq (slot_reliability p) (d ''reliability'')) \<and>
     (durability a = PyNone \<longrightarrow> field_eq (slot_durability p) (d ''durability'')) \<and>
     (lifespan a = PyNone \<longrightarrow> field_eq (slot_lifespan p) (d ''lifespan'')) \<and>
     (deadline a = PyNone \<longrightarrow> field_eq (slot_deadline p) (d ''deadline'')) \<and>
     (liveliness a = PyNone \<longrightarrow> field_eq (slot_liveliness p) (d ''liveliness'')) \<and>
     (liveliness_lease_duration a = PyNone \<longrightarrow>
        field_eq (slot_liveliness_lease_duration p) (d ''liveliness_lease_duration'')) \<and>
     (avoid_ros_namespace_conventions a = PyNone \<longrightarrow>
        field_eq (slot_avoid_ros_namespace_conventions p)
          (d ''avoid_ros_namespace_conventions''))"
  using init_Inr[OF assms]
  by (auto simp: field_eq_def chosen_def)

text \<open>
  Claim C5. After construction, and after any sequence of assignments through the setters
  (whether or not one of them raised), each of the four policy fields holds a defined
  member of its own enumeration class, also when the caller passed plain integers.
\<close>

theorem policy_fields_hold_members:
  "QoSProfile_init d a = (ws, Inr p) \<Longrightarrow> enum_fields_defined (after_all p xs)"
  using after_all_profile_ok[OF init_profile_ok] by (simp add: profile_ok_def)

theorem policy_fields_hold_members_witness:
  "QoSProfile_init example_default_dict (no_arguments\<lparr>depth := PyInt 5\<rparr>) =
     ([], Inr (example_profile 5)) \<and>
   enum_fields_defined
     (after_all (example_profile 5) [Assign_history (PyInt 2), Assign_reliability (PyInt 9)])"
  using policy_fields_hold_members[of example_default_dict "no_arguments\<lparr>depth := PyInt 5\<rparr>" "[]"
      "example_profile 5" "[Assign_history (PyInt 2), Assign_reliability (PyInt 9)]"]
  by (simp add: init_example_depth)

text \<open>
  Claim C6 says that the depth is a non-negative integer. The setter checks only that the
  value is an integer: \<^verbatim>\<open>QoSProfile(depth=-1)\<close> returns a profile whose depth is \<open>-1\<close>.
\<close>

theorem negative_depth_is_stored:
  "QoSProfile_init example_default_dict (no_arguments\<lparr>depth := PyInt (- 1)\<rparr>) =
     ([], Inr (example_profile (- 1))) \<and>
   slot_depth (example_profile (- 1)) = Some (PyInt (- 1))"
  by (simp add: init_example_depth example_profile_def)

text \<open>
  Claim C6, amended. After construction and after any sequence of assignments the depth is
  an integer (of either sign); assigning a depth that is not an integer raises
  \<^verbatim>\<open>AssertionError\<close> and stores nothing.
\<close>

theorem depth_is_an_integer:
  "(QoSProfile_init d a = (ws, Inr p) \<longrightarrow>
      slot_holds isinstance_int (slot_depth (after_all p xs))) \<and>
   (\<not> isinstance_int v \<longrightarrow>
      set_depth q v = raise (Exc AssertionError_cls []) \<and> after q (Assign_depth v) = q)"
  using after_all_profile_ok[OF init_profile_ok]
  by (auto simp: profile_ok_def set_depth_rejects after_def raise_def)

theorem depth_is_an_integer_witness:
  "QoSProfile_init example_default_dict (no_arguments\<lparr>depth := PyInt 5\<rparr>) =
     ([], Inr (example_profile 5)) \<and>
   slot_holds isinstance_int
     (slot_depth (after_all (example_profile 5) [Assign_depth (PyInt (- 3))])) \<and>
   \<not> isinstance_int (PyStr ''ten'') \<and>
   set_depth (example_profile 5) (PyStr ''ten'') = raise (Exc AssertionError_cls []) \<and>
   after (example_profile 5) (Assign_depth (PyStr ''ten'')) = example_profile 5"
  using depth_is_an_integer[of example_default_dict "no_arguments\<lparr>depth := PyInt 5\<rparr>" "[]"
      "example_profile 5" "[Assign_depth (PyInt (- 3))]" "PyStr ''ten''" "example_profile 5"]
  by (simp add: init_example_depth isinstance_int_def)

text \<open>
  Claim C7. Assigning a depth equal to 0 to a profile whose history is \<^verbatim>\<open>KEEP_LAST\<close>, and
  constructing a profile whose history is \<^verbatim>\<open>KEEP_LAST\<close> with a depth equal to 0 (the other
  arguments and the default entries in range), returns with the depth stored and exactly
  the zero-depth warning. It is the only warning: a construction or an assignment that
  returns with a warning has history \<^verbatim>\<open>KEEP_LAST\<close> and a depth equal to 0.
\<close>

theorem zero_depth_with_KEEP_LAST_warns:
  "(slot_history q = Some h \<and> py_eq h KEEP_LAST \<and> py_eq v (PyInt 0) \<longrightarrow>
      set_depth q v = ([UserWarning zero_depth_text], Inr (q\<lparr>slot_depth := Some v\<rparr>))) \<and>
   (in_range_args a \<and> default_dict_ok d \<and>
    py_eq (if history a = PyNone then KEEP_LAST else history a) KEEP_LAST \<and>
    py_eq (depth a) (PyInt 0) \<longrightarrow>
      (\<exists>p. QoSProfile_init d a = ([UserWarning zero_depth_text], Inr p) \<and>
           slot_depth p = Some (depth a))) \<and>
   (QoSProfile_init d a = (ws, Inr p) \<and> ws \<noteq> [] \<longrightarrow>
      ws = [UserWarning zero_depth_text] \<and> slot_history p = Some KEEP_LAST \<and>
      field_eq (slot_depth p) (Some (PyInt 0))) \<and>
   (assign q x = (ws', Inr q') \<and> ws' \<noteq> [] \<longrightarrow>
      ws' = [UserWarning zero_depth_text] \<and> (\<exists>v. x = Assign_depth v \<and> py_eq v (PyInt 0)) \<and>
      field_eq (slot_history q) (Some KEEP_LAST))"
  using set_depth_zero init_zero_depth init_warning assign_warning by blast

theorem zero_depth_with_KEEP_LAST_warns_witness:
  "slot_history (example_profile 5) = Some KEEP_LAST \<and> py_eq KEEP_LAST KEEP_LAST \<and>
   py_eq (PyInt 0) (PyInt 0) \<and>
   set_depth (example_profile 5) (PyInt 0) =
     ([UserWarning zero_depth_text], Inr ((example_profile 5)\<lparr>slot_depth := Some (PyInt 0)\<rparr>)) \<and>
   in_range_args (no_arguments\<lparr>depth := PyInt 0\<rparr>) \<and> default_dict_ok example_default_dict \<and>
   QoSProfile_init example_default_dict (no_arguments\<lparr>depth := PyInt 0\<rparr>) =
     ([UserWarning zero_depth_text], Inr (example_profile 0)) \<and>
   slot_depth (example_profile 0) = Some (PyInt 0) \<and>
   slot_history (example_profile 0) = Some KEEP_LAST \<and>
   assign (example_profile 5) (Assign_depth (PyInt 0)) =
     ([UserWarning zero_depth_text], Inr ((example_profile 5)\<lparr>slot_depth := Some (PyInt 0)\<rparr>)) \<and>
   field_eq (slot_history (example_profile 5)) (Some KEEP_LAST)"
  using zero_depth_with_KEEP_LAST_warns[of "example_profile 5" KEEP_LAST "PyInt 0" "no_arguments\<lparr>depth := PyInt 0\<rparr>"
      example_default_dict "[UserWarning zero_depth_text]" "example_profile 0"
      "Assign_depth (PyInt 0)" "[UserWarning zero_depth_text]"
      "(example_profile 5)\<lparr>slot_depth := Some (PyInt 0)\<rparr>"]
    example_default_dict_ok
  by (simp add: init_example_depth in_range_no_arguments_depth set_depth_example field_eq_def)

text \<open>
  Claim C3. In a profile that the constructor returns, each of reliability, durability,
  lifespan, deadline, liveliness, liveliness_lease_duration and
  avoid_ros_namespace_conventions that was omitted compares equal to the entry of the
  default dictionary under the same key, whatever that dictionary is.
\<close>

theorem omitted_fields_equal_defaults:
  assumes "QoSProfile_init d a = (ws, Inr p)"
  shows "(reliability a = PyNone \<longrightarrow> field_eq (slot_reliability p) (d ''reliability'')) \<and>
     (durability a = PyNone \<longrightarrow> field_eq (slot_durability p) (d ''durability'')) \<and>
     (lifespan a = PyNone \<longrightarrow> field_eq (slot_lifespan p) (d ''lifespan'')) \<and>
     (deadline a = PyNone \<longrightarrow> field_eq (slot_deadline p) (d ''deadline'')) \<and>
     (liveliness a = PyNone \<longrightarrow> field_eq (slot_liveliness p) (d ''liveliness'')) \<and>
     (liveliness_lease_duration a = PyNone \<longrightarrow>
        field_eq (slot_liveliness_lease_duration p) (d ''liveliness_lease_duration'')) \<and>
     (avoid_ros_namespace_conventions a = PyNone \<longrightarrow>
        field_eq (slot_avoid_ros_namespace_conventions p)
          (d ''avoid_ros_namespace_conventions''))"
  using init_defaults[OF assms] .

theorem omitted_fields_equal_defaults_witness:
  "QoSProfile_init example_default_dict (no_arguments\<lparr>depth := PyInt 5\<rparr>) =
     ([], Inr (example_profile 5)) \<and>
   reliability (no_arguments\<lparr>depth := PyInt 5\<rparr>) = PyNone \<and>
   durability (no_arguments\<lparr>depth := PyInt 5\<rparr>) = PyNone \<and>
   lifespan (no_arguments\<lparr>depth := PyInt 5\<rparr>) = PyNone \<and>
   deadline (no_arguments\<lparr>depth := PyInt 5\<rparr>) = PyNone \<and>
   liveliness (no_arguments\<lparr>depth := PyInt 5\<rparr>) = PyNone \<and>
   liveliness_lease_duration (no_arguments\<lparr>depth := PyInt 5\<rparr>) = PyNone \<and>
   avoid_ros_namespace_conventions (no_arguments\<lparr>depth := PyInt 5\<rparr>) = PyNone \<and>
   field_eq (slot_reliability (example_profile 5)) (example_default_dict ''reliability'') \<and>
   field_eq (slot_durability (example_profile 5)) (example_default_dict ''durability'') \<and>
   field_eq (slot_lifespan (example_profile 5)) (example_default_dict ''lifespan'') \<and>
   field_eq (slot_deadline (example_profile 5)) (example_default_dict ''deadline'') \<and>
   field_eq (slot_liveliness (example_profile 5)) (example_default_dict ''liveliness'') \<and>
   field_eq (slot_liveliness_lease_duration (example_profile 5))
     (example_default_dict ''liveliness_lease_duration'') \<and>
   field_eq (slot_avoid_ros_namespace_conventions (example_profile 5))
     (example_default_dict ''avoid_ros_namespace_conventions'')"
  using omitted_fields_equal_defaults[of example_default_dict "no_arguments\<lparr>depth := PyInt 5\<rparr>" "[]"
      "example_profile 5"]
  by (simp add: init_example_depth)

section \<open>Equality of profiles\<close>

lemma field_eq_Some [simp]: "field_eq (Some x) (Some y) = py_eq x y"
  by (simp add: field_eq_def)

lemma getattribute_slots [simp]:
  "getattribute self ''_history'' = read_slot (slot_history self)"
  "getattribute self ''_depth'' = read_slot (slot_depth self)"
  "getattribute self ''_reliability'' = read_slot (slot_reliability self)"
  "getattribute self ''_durability'' = read_slot (slot_durability self)"
  "getattribute self ''_lifespan'' = read_slot (slot_lifespan self)"
  "getattribute self ''_deadline'' = read_slot (slot_deadline self)"
  "getattribute self ''_liveliness'' = read_slot (slot_liveliness self)"
  "getattribute self ''_liveliness_lease_duration'' =
     read_slot (slot_liveliness_lease_duration self)"
  "getattribute self ''_avoid_ros_namespace_conventions'' =
     read_slot (slot_avoid_ros_namespace_conventions self)"
  by (simp_all add: getattribute_def)

lemma read_slot_Some [simp]: "read_slot (Some v) = return v"
  by (simp add: read_slot_def)

lemma initialisedE:
  assumes "initialised p"
  obtains h n r du ls dl lv ld av where
    "p = \<lparr>slot_history = Some h, slot_depth = Some n, slot_reliability = Some r,
          slot_durability = Some du, slot_lifespan = Some ls, slot_deadline = Some dl,
          slot_liveliness = Some lv, slot_liveliness_lease_duration = Some ld,
          slot_avoid_ros_namespace_conventions = Some av\<rparr>"
  using assms by (cases p) (auto simp: initialised_def)

lemma QoSProfile_eq_fields:
  assumes "initialised p" and "initialised q"
  shows "QoSProfile_eq p (QoSProfile_object q) =
     return (field_eq (slot_history p) (slot_history q) \<and>
             field_eq (slot_depth p) (slot_depth q) \<and>
             field_eq (slot_reliability p) (slot_reliability q) \<and>
             field_eq (slot_durability p) (slot_durability q) \<and>
             field_eq (slot_lifespan p) (slot_lifespan q) \<and>
             field_eq (slot_deadline p) (slot_deadline q) \<and>
             field_eq (slot_liveliness p) (slot_liveliness q) \<and>
             field_eq (slot_liveliness_lease_duration p) (slot_liveliness_lease_duration q) \<and>
             field_eq (slot_avoid_ros_namespace_conventions p)
               (slot_avoid_ros_namespace_conventions q))"
proof -
  from assms(1) obtain h n r du ls dl lv ld av where p:
    "p = \<lparr>slot_history = Some h, slot_depth = Some n, slot_reliability = Some r,
          slot_durability = Some du, slot_lifespan = Some ls, slot_deadline = Some dl,
          slot_liveliness = Some lv, slot_liveliness_lease_duration = Some ld,
          slot_avoid_ros_namespace_conventions = Some av\<rparr>"
    by (rule initialisedE)
  from assms(2) obtain h' n' r' du' ls' dl' lv' ld' av' where q:
    "q = \<lparr>slot_history = Some h', slot_depth = Some n', slot_reliability = Some r',
          slot_durability = Some du', slot_lifespan = Some ls', slot_deadline = Some dl',
          slot_liveliness = Some lv', slot_liveliness_lease_duration = Some ld',
          slot_avoid_ros_namespace_conventions = Some av'\<rparr>"
    by (rule initialisedE)
  show ?thesis
    unfolding p q by (simp add: QoSProfile_eq_def slots_def)
qed

lemma field_eq_refl: "s \<noteq> None \<Longrightarrow> field_eq s s"
  by (cases s) simp_all

lemma field_eq_sym: "field_eq s t = field_eq t s"
  by (cases s; cases t) (simp_all add: field_eq_def py_eq_sym)

lemma init_initialised: "QoSProfile_init d a = (ws, Inr p) \<Longrightarrow> initialised p"
  by (drule init_Inr) (auto simp: initialised_def)

lemma example_profile_initialised: "initialised (example_profile n)"
  by (simp add: initialised_def)

text \<open>
  Claim C4. For two profiles whose slots are all assigned (as they are after construction),
  \<^verbatim>\<open>p == q\<close> is true exactly when each of the nine fields of \<open>p\<close> compares equal to the
  same field of \<open>q\<close>; \<^verbatim>\<open>p == p\<close> is true, and \<^verbatim>\<open>q == p\<close> gives what \<^verbatim>\<open>p == q\<close> gives.
\<close>

theorem profile_equality_is_fieldwise:
  assumes "initialised p" and "initialised q"
  shows "QoSProfile_eq p (QoSProfile_object q) =
     return (field_eq (slot_history p) (slot_history q) \<and>
             field_eq (slot_depth p) (slot_depth q) \<and>
             field_eq (slot_reliability p) (slot_reliability q) \<and>
             field_eq (slot_durability p) (slot_durability q) \<and>
             field_eq (slot_lifespan p) (slot_lifespan q) \<and>
             field_eq (slot_deadline p) (slot_deadline q) \<and>
             field_eq (slot_liveliness p) (slot_liveliness q) \<and>
             field_eq (slot_liveliness_lease_duration p) (slot_liveliness_lease_duration q) \<and>
             field_eq (slot_avoid_ros_namespace_conventions p)
               (slot_avoid_ros_namespace_conventions q)) \<and>
   QoSProfile_eq p (QoSProfile_object p) = return True \<and>
   QoSProfile_eq q (QoSProfile_object p) = QoSProfile_eq p (QoSProfile_object q)"
proof (intro conjI)
  show "QoSProfile_eq p (QoSProfile_object p) = return True"
    using assms(1) by (simp add: QoSProfile_eq_fields field_eq_refl initialised_def)
  show "QoSProfile_eq q (QoSProfile_object p) = QoSProfile_eq p (QoSProfile_object q)"
    unfolding QoSProfile_eq_fields[OF assms(1,2)] QoSProfile_eq_fields[OF assms(2,1)]
    by (simp add: field_eq_sym[of "slot_history q"] field_eq_sym[of "slot_depth q"]
        field_eq_sym[of "slot_reliability q"] field_eq_sym[of "slot_durability q"]
        field_eq_sym[of "slot_lifespan q"] field_eq_sym[of "slot_deadline q"]
        field_eq_sym[of "slot_liveliness q"] field_eq_sym[of "slot_liveliness_lease_duration q"]
        field_eq_sym[of "slot_avoid_ros_namespace_conventions q"])
qed (rule QoSProfile_eq_fields[OF assms])

theorem profile_equality_is_fieldwise_witness:
  "initialised (example_profile 5) \<and> initialised (example_profile 7) \<and>
   QoSProfile_eq (example_profile 5) (QoSProfile_object (example_profile 7)) = return False \<and>
   QoSProfile_eq (example_profile 5) (QoSProfile_object (example_profile 5)) = return True \<and>
   QoSProfile_eq (example_profile 7) (QoSProfile_object (example_profile 5)) =
     QoSProfile_eq (example_profile 5) (QoSProfile_object (example_profile 7))"
  using profile_equality_is_fieldwise[OF example_profile_initialised[of 5] example_profile_initialised[of 7]]
  by (simp add: example_profile_initialised)

section \<open>Short keys\<close>

lemma char_lower_lower: "char_lower (char_lower c) = char_lower c"
  by (auto simp: char_lower_def Let_def)

lemma lower_lower: "lower (lower s) = lower s"
  by (simp add: lower_def char_lower_lower)

lemma char_upper_lower: "char_upper (char_lower c) = char_upper c"
  by (auto simp: char_upper_def char_lower_def Let_def)

lemma upper_lower: "upper (lower s) = upper s"
  by (simp add: upper_def lower_def char_upper_lower)

lemma members_distinct: "distinct (map fst (members cls))"
  by (cases cls) simp_all

lemma members_upper: "(k, v) \<in> set (members cls) \<Longrightarrow> upper k = k"
  by (cases cls) (auto simp: upper_def char_upper_def)

lemma members_lookup: "(k, v) \<in> set (members cls) \<Longrightarrow> map_of (members cls) k = Some v"
  using members_distinct by (simp add: map_of_eq_Some_iff)

lemma short_key_listed:
  "(k, v) \<in> set (members cls) \<Longrightarrow> \<not> startswith k ''RMW'' \<Longrightarrow> lower k \<in> set (short_keys cls)"
  by (force simp: short_keys_def)

lemma get_from_short_key_any_case:
  assumes "(k, v) \<in> set (members cls)" and "lower s = lower k"
  shows "get_from_short_key cls s = return (PyInt v)"
proof -
  have "upper s = upper (lower k)"
    using assms(2) upper_lower[of s] by simp
  then have "upper s = k"
    using members_upper[OF assms(1)] by (simp add: upper_lower)
  then show ?thesis
    using members_lookup[OF assms(1)] by (simp add: get_from_short_key_def)
qed

text \<open>
  Claim C8. For every member of a policy enumeration whose name does not start with the
  legacy prefix \<^verbatim>\<open>RMW\<close>, the lower-cased name is among \<^verbatim>\<open>short_keys()\<close>, and
  \<^verbatim>\<open>get_from_short_key\<close> of it returns the member's value, which compares equal to the
  member; so does \<^verbatim>\<open>get_from_short_key\<close> of any ASCII spelling that differs only in case.
\<close>

theorem short_key_round_trip:
  assumes "(k, v) \<in> set (members cls)" and "\<not> startswith k ''RMW''"
  shows "lower k \<in> set (short_keys cls) \<and>
     get_from_short_key cls (lower k) = return (PyInt v) \<and>
     py_eq (PyInt v) (PyEnum cls v) \<and>
     (is_ascii s \<and> lower s = lower k \<longrightarrow> get_from_short_key cls s = return (PyInt v))"
  using short_key_listed[OF assms] get_from_short_key_any_case[OF assms(1), of s]
    get_from_short_key_any_case[OF assms(1), of "lower k"]
  by (simp add: lower_lower)

theorem short_key_round_trip_witness:
  "(''KEEP_LAST'', 1) \<in> set (members HistoryPolicy) \<and> \<not> startswith ''KEEP_LAST'' ''RMW'' \<and>
   lower ''KEEP_LAST'' = ''keep_last'' \<and>
   ''keep_last'' \<in> set (short_keys HistoryPolicy) \<and>
   get_from_short_key HistoryPolicy ''keep_last'' = return (PyInt 1) \<and>
   py_eq (PyInt 1) KEEP_LAST \<and>
   is_ascii ''Keep_Last'' \<and> lower ''Keep_Last'' = ''keep_last'' \<and>
   get_from_short_key HistoryPolicy ''Keep_Last'' = return (PyInt 1)"
proof -
  have l1: "lower ''KEEP_LAST'' = ''keep_last''" and l2: "lower ''Keep_Last'' = ''keep_last''"
    by code_simp+
  have a: "is_ascii ''Keep_Last''" by (simp add: is_ascii_def)
  have m: "(''KEEP_LAST'', 1) \<in> set (members HistoryPolicy)" by simp
  have n: "\<not> startswith ''KEEP_LAST'' ''RMW''" by (simp add: startswith_def)
  from short_key_round_trip[OF m n, of "''Keep_Last''"] l1 l2 a m n show ?thesis by simp
qed

section \<open>Compatibility: best-effort publisher, reliable subscription\<close>

lemma return_inject [simp]: "(return x = return y) = (x = y)"
  by (simp add: return_def)

lemma slot_holdsE:
  assumes "slot_holds P s"
  obtains v where "s = Some v" and "P v"
  using assms by (cases s) (auto simp: slot_holds_def)

lemma member_ofE:
  assumes "member_of cls v"
  obtains i where "v = PyEnum cls i" and "has_value cls i"
  using assms by (cases v) (auto simp: member_of_def)

lemma member_slot_as_int:
  assumes "slot_holds (member_of cls) s"
  obtains i where "s = Some (PyEnum cls i)" and "bind (read_slot s) as_int = return i"
  using assms
  by (auto elim!: slot_holdsE member_ofE simp: read_slot_def as_int_def)

lemma int_slot_as_int:
  assumes "slot_holds isinstance_int s"
  obtains i where "bind (read_slot s) as_int = return i"
  using assms
  by (auto elim!: slot_holdsE simp: read_slot_def as_int_def isinstance_int_def)

lemma duration_slot_c:
  assumes "slot_holds isinstance_Duration s"
  obtains n where "bind (read_slot s) get_c_duration = return n"
proof -
  from assms obtain v where "s = Some v" and "isinstance_Duration v" by (rule slot_holdsE)
  then show ?thesis
    using that by (cases v) (simp_all add: read_slot_def get_c_duration_def)
qed

lemma bool_slot_as_bool:
  assumes "slot_holds isinstance_bool s"
  obtains b where "bind (read_slot s) as_bool = return b"
proof -
  from assms obtain v where "s = Some v" and "isinstance_bool v" by (rule slot_holdsE)
  then show ?thesis
    using that by (cases v) (simp_all add: read_slot_def as_bool_def)
qed

lemma get_c_qos_profile_ok:
  assumes "profile_ok p" and ri: "slot_reliability p = Some (PyEnum ReliabilityPolicy i)"
  shows "\<exists>c. get_c_qos_profile p = return c \<and> c_reliability c = i"
proof -
  from assms have
    h: "slot_holds (member_of HistoryPolicy) (slot_history p)" and
    n: "slot_holds isinstance_int (slot_depth p)" and
    r: "slot_holds (member_of ReliabilityPolicy) (slot_reliability p)" and
    du: "slot_holds (member_of DurabilityPolicy) (slot_durability p)" and
    ls: "slot_holds isinstance_Duration (slot_lifespan p)" and
    dl: "slot_holds isinstance_Duration (slot_deadline p)" and
    lv: "slot_holds (member_of LivelinessPolicy) (slot_liveliness p)" and
    ld: "slot_holds isinstance_Duration (slot_liveliness_lease_duration p)" and
    av: "slot_holds isinstance_bool (slot_avoid_ros_namespace_conventions p)"
    by (simp_all add: profile_ok_def enum_fields_defined_def)
  from h obtain hi where h': "bind (read_slot (slot_history p)) as_int = return hi"
    by (rule member_slot_as_int)
  from n obtain ni where n': "bind (read_slot (slot_depth p)) as_int = return ni"
    by (rule int_slot_as_int)
  from r obtain ri where r0: "slot_reliability p = Some (PyEnum ReliabilityPolicy ri)"
    and r': "bind (read_slot (slot_reliability p)) as_int = return ri"
    by (rule member_slot_as_int)
  from du obtain di where du': "bind (read_slot (slot_durability p)) as_int = return di"
    by (rule member_slot_as_int)
  from ls obtain lsn where ls': "bind (read_slot (slot_lifespan p)) get_c_duration = return lsn"
    by (rule duration_slot_c)
  from dl obtain dln where dl': "bind (read_slot (slot_deadline p)) get_c_duration = return dln"
    by (rule duration_slot_c)
  from lv obtain li where lv': "bind (read_slot (slot_liveliness p)) as_int = return li"
    by (rule member_slot_as_int)
  from ld obtain ldn where
    ld': "bind (read_slot (slot_liveliness_lease_duration p)) get_c_duration = return ldn"
    by (rule duration_slot_c)
  from av obtain b where
    av': "bind (read_slot (slot_avoid_ros_namespace_conventions p)) as_bool = return b"
    by (rule bool_slot_as_bool)
  have "get_c_qos_profile p =
      return \<lparr>c_history = hi, c_depth = ni, c_reliability = ri, c_durability = di,
              c_lifespan = lsn, c_deadline = dln, c_liveliness = li,
              c_liveliness_lease_duration = ldn,
              c_avoid_ros_namespace_conventions = b\<rparr>"
    unfolding get_c_qos_profile_def h' n' r' du' ls' dl' lv' ld' av' by simp
  moreover have "ri = i" using r0 ri by simp
  ultimately show ?thesis by simp
qed

lemma reliability_error:
  assumes "c_reliability pub = 2" and "c_reliability sub = 1"
  shows "compatibility (rclpy_qos_check_compatible sentinel pub sub) = ERROR"
    and "sublist ''RELIABILITY'' (reason (rclpy_qos_check_compatible sentinel pub sub))"
proof -
  have v: "check_reliability (c_reliability pub) (c_reliability sub) = ERROR"
    using assms by (simp add: check_reliability_def)
  show "compatibility (rclpy_qos_check_compatible sentinel pub sub) = ERROR"
    using v by (simp add: rclpy_qos_check_compatible_def policy_verdicts_def final_verdict_def)
  have "prefix ''RELIABILITY'' (reason (rclpy_qos_check_compatible sentinel pub sub))"
    using v by (simp add: rclpy_qos_check_compatible_def policy_verdicts_def reason_text_def)
  then show "sublist ''RELIABILITY'' (reason (rclpy_qos_check_compatible sentinel pub sub))"
    by (rule prefix_imp_sublist)
qed

lemma example_profile_ok: "profile_ok (example_profile n)"
  by (simp add: profile_ok_def enum_fields_defined_def slot_holds_def member_of_def
      has_value_def isinstance_int_def)

lemma set_reliability_example:
  "profile_ok ((example_profile n)\<lparr>slot_reliability := Some (PyEnum ReliabilityPolicy 2)\<rparr>)"
  by (simp add: profile_ok_def enum_fields_defined_def slot_holds_def member_of_def
      has_value_def isinstance_int_def)

text \<open>
  Claim C1. For every pair of profiles (each slot holding a value its setter admits) where
  the publisher's reliability is \<^verbatim>\<open>BEST_EFFORT\<close> and the subscription's is \<^verbatim>\<open>RELIABLE\<close>,
  \<^verbatim>\<open>qos_check_compatible\<close> returns the verdict \<^verbatim>\<open>ERROR\<close> and a reason that contains
  \<^verbatim>\<open>RELIABILITY\<close>, whatever the other fields are.
\<close>

theorem best_effort_to_reliable_is_error:
  assumes "profile_ok publisher_qos" and "profile_ok subscription_qos"
    and "slot_reliability publisher_qos = Some (PyEnum ReliabilityPolicy 2)"
    and "slot_reliability subscription_qos = Some (PyEnum ReliabilityPolicy 1)"
  shows "\<exists>text. qos_check_compatible sentinel publisher_qos subscription_qos =
            return (ERROR, text) \<and> sublist ''RELIABILITY'' text"
proof -
  from get_c_qos_profile_ok[OF assms(1,3)] obtain pub where
    pub: "get_c_qos_profile publisher_qos = return pub" and p2: "c_reliability pub = 2"
    by blast
  from get_c_qos_profile_ok[OF assms(2,4)] obtain sub where
    sub: "get_c_qos_profile subscription_qos = return sub" and s1: "c_reliability sub = 1"
    by blast
  have "qos_check_compatible sentinel publisher_qos subscription_qos =
      return (compatibility (rclpy_qos_check_compatible sentinel pub sub),
              reason (rclpy_qos_check_compatible sentinel pub sub))"
    by (simp add: qos_check_compatible_def pub sub Let_def)
  with reliability_error[OF p2 s1, of sentinel] show ?thesis by simp
qed

theorem best_effort_to_reliable_is_error_witness:
  "profile_ok ((example_profile 5)\<lparr>slot_reliability := Some (PyEnum ReliabilityPolicy 2)\<rparr>) \<and>
   profile_ok (example_profile 5) \<and>
   slot_reliability ((example_profile 5)\<lparr>slot_reliability := Some (PyEnum ReliabilityPolicy 2)\<rparr>)
     = Some (PyEnum ReliabilityPolicy 2) \<and>
   slot_reliability (example_profile 5) = Some (PyEnum ReliabilityPolicy 1) \<and>
   (\<exists>text. qos_check_compatible (\<lambda>n. n = 0)
             ((example_profile 5)\<lparr>slot_reliability := Some (PyEnum ReliabilityPolicy 2)\<rparr>)
             (example_profile 5) = return (ERROR, text) \<and>
           sublist ''RELIABILITY'' text)"
  using best_effort_to_reliable_is_error[of "(example_profile 5)\<lparr>slot_reliability := Some (PyEnum ReliabilityPolicy 2)\<rparr>"
      "example_profile 5" "\<lambda>n. n = 0"]
    example_profile_ok[of 5] set_reliability_example[of 5]
  by simp

end
